theory Spec2Isabelle
  imports Main
begin

section \<open>Mixbox LUT extraction: the data model\<close>

text \<open>
  The repository is one Python script, \<^verbatim>\<open>scripts/extract_mixbox_lut.py\<close>, which writes a
  Node.js snippet (\<^verbatim>\<open>extract_lut.js\<close>, held in the script as a string), runs it, and
  formats the bytes the snippet leaves in \<^verbatim>\<open>mixbox_lut_raw.bin\<close> as a Dart list literal.
  Both programs are embedded here: the snippet as \<open>extract_lut_js\<close>, the script as \<open>main\<close>.

  A byte is a \<^typ>\<open>char\<close> (HOL characters are 8 bits wide); \<open>of_char\<close> reads its value
  as Python does when it iterates over a \<^verbatim>\<open>bytes\<close> object.
\<close>

type_synonym byte = char

subsection \<open>Text helpers\<close>

text \<open>The decimal rendering of a non-negative integer (\<^verbatim>\<open>str(b)\<close> in Python, the
  number formatting of \<^verbatim>\<open>console.log\<close> in JavaScript).\<close>

definition digit_char :: "nat \<Rightarrow> char" where
  "digit_char d = char_of (48 + d)"

function str :: "nat \<Rightarrow> string" where
  "str n = (if n < 10 then [digit_char n] else str (n div 10) @ [digit_char (n mod 10)])"
  by pat_completeness auto
termination
  by (relation "measure id") auto

declare str.simps [simp del]

text \<open>\<^verbatim>\<open>sep.join(parts)\<close>.\<close>

fun join :: "string \<Rightarrow> string list \<Rightarrow> string" where
  "join sep [] = []"
| "join sep [x] = x"
| "join sep (x # y # ys) = x @ sep @ join sep (y # ys)"

subsection \<open>The Node.js snippet: console and size normalisation\<close>

text \<open>What the snippet has printed so far.\<close>

record js_proc =
  js_stdout :: string
  js_stderr :: string

text \<open>\<^verbatim>\<open>console.log(a, b, ...)\<close> and \<^verbatim>\<open>console.error(a, b, ...)\<close>: the arguments
  separated by one space, then a newline.\<close>

definition console_log :: "string list \<Rightarrow> js_proc \<Rightarrow> js_proc" where
  "console_log args p = p\<lparr>js_stdout := js_stdout p @ join '' '' args @ ''\<newline>''\<rparr>"

definition console_error :: "string list \<Rightarrow> js_proc \<Rightarrow> js_proc" where
  "console_error args p = p\<lparr>js_stderr := js_stderr p @ join '' '' args @ ''\<newline>''\<rparr>"

definition expectedSize :: nat where
  "expectedSize = 786432"

text \<open>
  Lines 60 to 74 of the script (inside the snippet):
  \<^verbatim>\<open>
  if (lut.length === expectedSize) { lutBuffer = Buffer.from(lut); }
  else if (lut.length > expectedSize) {
      console.log('Decompressed data larger than expected, finding actual LUT data...');
      const offset = lut.length - expectedSize;
      console.log('Skipping', offset, 'bytes of header/metadata');
      lutBuffer = Buffer.from(lut.slice(offset));
  } else { console.error('Decompressed data smaller than expected!'); process.exit(1); }
  \<close>
  \<open>Inl code\<close> is \<^verbatim>\<open>process.exit(code)\<close>, \<open>Inr lutBuffer\<close> the buffer handed on.
\<close>

definition size_normalizer :: "byte list \<Rightarrow> js_proc \<Rightarrow> (nat + byte list) \<times> js_proc" where
  "size_normalizer lut p =
     (if length lut = expectedSize then (Inr lut, p)
      else if length lut > expectedSize then
        (let p1 = console_log
                    [''Decompressed data larger than expected, finding actual LUT data...''] p;
             offset = length lut - expectedSize;
             p2 = console_log [''Skipping'', str offset, ''bytes of header/metadata''] p1
         in (Inr (drop offset lut), p2))
      else (Inl 1, console_error [''Decompressed data smaller than expected!''] p))"

subsection \<open>Files, paths and the observable world\<close>

text \<open>
  A path is the list of its components below the root; a relative path is a list of
  components as well and is resolved against a directory, \<^verbatim>\<open>..\<close> stepping to the parent.
  The file system maps a path to what is there. \<open>fs_read\<close>, \<open>fs_write\<close>, \<open>fs_remove\<close>
  and \<open>fs_mkdir\<close> are the operating system's calls, which both the snippet and the script
  go through; they fail with an error number.
\<close>

type_synonym path = "string list"

datatype entry = Dir | File "byte list"

type_synonym filesystem = "path \<Rightarrow> entry option"

datatype errno = ENOENT | EEXIST | ENOTDIR | EISDIR

definition walk :: "path \<Rightarrow> string \<Rightarrow> path" where
  "walk d c = (if c = ''..'' then butlast d else if c = ''.'' then d else d @ [c])"

definition resolve :: "path \<Rightarrow> string list \<Rightarrow> path" where
  "resolve d rel = foldl walk d rel"

definition fs_read :: "filesystem \<Rightarrow> path \<Rightarrow> errno + byte list" where
  "fs_read f p = (case f p of None \<Rightarrow> Inl ENOENT | Some Dir \<Rightarrow> Inl EISDIR | Some (File d) \<Rightarrow> Inr d)"

definition fs_write :: "filesystem \<Rightarrow> path \<Rightarrow> byte list \<Rightarrow> errno + filesystem" where
  "fs_write f p d =
     (case f p of
        Some Dir \<Rightarrow> Inl EISDIR
      | _ \<Rightarrow> (case f (butlast p) of
                None \<Rightarrow> Inl ENOENT
              | Some (File _) \<Rightarrow> Inl ENOTDIR
              | Some Dir \<Rightarrow> Inr (f(p \<mapsto> File d))))"

definition fs_remove :: "filesystem \<Rightarrow> path \<Rightarrow> errno + filesystem" where
  "fs_remove f p =
     (case f p of None \<Rightarrow> Inl ENOENT | Some Dir \<Rightarrow> Inl EISDIR | Some (File _) \<Rightarrow> Inr (f(p := None)))"

definition fs_mkdir :: "filesystem \<Rightarrow> path \<Rightarrow> errno + filesystem" where
  "fs_mkdir f p =
     (case f p of
        Some _ \<Rightarrow> Inl EEXIST
      | None \<Rightarrow> (case f (butlast p) of
                   None \<Rightarrow> Inl ENOENT
                 | Some (File _) \<Rightarrow> Inl ENOTDIR
                 | Some Dir \<Rightarrow> Inr (f(p \<mapsto> Dir))))"

text \<open>
  Everything a run does that can be seen from outside is appended to a trace, in order:
  what the script prints, and every file either program reads and every change either makes
  to the file system.
\<close>

datatype stream = Stdout | Stderr

datatype exn = OSError errno string | CalledProcessError nat string string

datatype event =
    Print stream string
  | Traceback exn
  | Chdir path
  | Read path
  | Write path
  | Remove path
  | Mkdir path

record world =
  fs :: filesystem
  cwd :: path
  trace :: "event list"

text \<open>What is outside the two programs: where the script file lies
  (\<^verbatim>\<open>os.path.dirname(os.path.abspath(__file__))\<close>), whether a \<^verbatim>\<open>node\<close> executable can be
  started, and the third-party code the snippet cuts out of \<^verbatim>\<open>mixbox.esm.js\<close> and runs
  with \<^verbatim>\<open>eval\<close>: given the code and the compressed string, \<^verbatim>\<open>decompress\<close> either throws
  (\<open>Inl\<close>, with the message) or returns a byte array.\<close>

record env =
  script_dir :: path
  node_installed :: bool
  foreign_decompress :: "string \<Rightarrow> string \<Rightarrow> string + byte list"

subsection \<open>The Node.js snippet\<close>

text \<open>The text of the snippet, lines 18 to 78 of the script. A HOL string literal can hold
  neither a single quote nor a backslash, so the literal below has a backquote and a tilde
  in their places (the snippet contains neither) and \<open>unescape\<close> puts them back.\<close>

definition unescape :: "char \<Rightarrow> char" where
  "unescape c = (if c = CHR 0x60 then CHR 0x27 else if c = CHR 0x7E then CHR 0x5C else c)"

definition js_script :: string where
  \<open>js_script = map unescape (concat [
      ''\<newline>'',
      ''const fs = require(`fs`);\<newline>'',
      ''const path = require(`path`);\<newline>'',
      ''\<newline>'',
      ''// Read the mixbox module\<newline>'',
      ''const mixboxPath = path.join(__dirname, `../reference-mixbox/mixbox-master/javascript/mixbox.esm.js`);\<newline>'',
      ''const mixboxCode = fs.readFileSync(mixboxPath, `utf8`);\<newline>'',
      ''\<newline>'',
      ''// Extract the compressed LUT string (it`s the large string at the end)\<newline>'',
      ''// Find the var lut = decompress("...") line\<newline>'',
      ''const lutMatch = mixboxCode.match(/var lut = decompress~("([^"]+)"~);/);\<newline>'',
      ''\<newline>'',
      ''if (!lutMatch) {\<newline>'',
      ''    console.error(`Could not find LUT data in mixbox.esm.js`);\<newline>'',
      ''    process.exit(1);\<newline>'',
      ''}\<newline>'',
      ''\<newline>'',
      ''const compressedLut = lutMatch[1];\<newline>'',
      ''console.log(`Found compressed LUT, length:`, compressedLut.length);\<newline>'',
      ''\<newline>'',
      ''// We need to extract and run the decompress function\<newline>'',
      ''// Find the decompress function and all its dependencies\<newline>'',
      ''const decompressFunctionStart = mixboxCode.indexOf(`function decompress(`);\<newline>'',
      ''const decompressFunctionEnd = mixboxCode.indexOf(`var lut = decompress`);\<newline>'',
      ''\<newline>'',
      ''if (decompressFunctionStart === -1) {\<newline>'',
      ''    console.error(`Could not find decompress function`);\<newline>'',
      ''    process.exit(1);\<newline>'',
      ''}\<newline>'',
      ''\<newline>'',
      ''// Extract all the decompression-related code\<newline>'',
      ''const decompressionCode = mixboxCode.substring(decompressFunctionStart, decompressFunctionEnd);\<newline>'',
      ''\<newline>'',
      ''// Execute the decompression\<newline>'',
      ''eval(decompressionCode);\<newline>'',
      ''const lut = decompress(compressedLut);\<newline>'',
      ''\<newline>'',
      ''console.log(`Decompressed LUT, length:`, lut.length);\<newline>'',
      ''console.log(`Expected length: 786432 (64*64*64*3)`);\<newline>'',
      ''\<newline>'',
      ''// The LUT should be 786432 bytes (64*64*64*3)\<newline>'',
      ''// Skip any header if the decompressed data is larger\<newline>'',
      ''const expectedSize = 786432;\<newline>'',
      ''let lutBuffer;\<newline>'',
      ''\<newline>'',
      ''if (lut.length === expectedSize) {\<newline>'',
      ''    lutBuffer = Buffer.from(lut);\<newline>'',
      ''} else if (lut.length > expectedSize) {\<newline>'',
      ''    console.log(`Decompressed data larger than expected, finding actual LUT data...`);\<newline>'',
      ''    // The actual LUT data is at the end\<newline>'',
      ''    const offset = lut.length - expectedSize;\<newline>'',
      ''    console.log(`Skipping`, offset, `bytes of header/metadata`);\<newline>'',
      ''    lutBuffer = Buffer.from(lut.slice(offset));\<newline>'',
      ''} else {\<newline>'',
      ''    console.error(`Decompressed data smaller than expected!`);\<newline>'',
      ''    process.exit(1);\<newline>'',
      ''}\<newline>'',
      ''\<newline>'',
      ''fs.writeFileSync(`mixbox_lut_raw.bin`, lutBuffer);\<newline>'',
      ''console.log(`Written raw LUT to mixbox_lut_raw.bin (` + lutBuffer.length + ` bytes)`);\<newline>''])\<close>

text \<open>\<^verbatim>\<open>mixboxCode.match(/var lut = decompress\("([^"]+)"\);/)\<close>: the first position where
  the text \<^verbatim>\<open>var lut = decompress("\<close> is followed by one or more characters other than a
  double quote and then by \<^verbatim>\<open>");\<close>. The class \<^verbatim>\<open>[^"]\<close> cannot run over a double quote,
  so at a given position the group is the run of characters up to the next double quote.
  The result is the group, \<^verbatim>\<open>lutMatch[1]\<close>, or \<open>None\<close> for \<^verbatim>\<open>null\<close>.\<close>

definition lut_match_at :: "string \<Rightarrow> string option" where
  \<open>lut_match_at s =
     (let pre = ''var lut = decompress("'' in
      if take (length pre) s = pre then
        (let rest = drop (length pre) s;
             grp = takeWhile (\<lambda>c. c \<noteq> CHR 0x22) rest;
             after = dropWhile (\<lambda>c. c \<noteq> CHR 0x22) rest
         in if grp \<noteq> [] \<and> take 3 after = ''");'' then Some grp else None)
      else None)\<close>

fun lut_match :: "string \<Rightarrow> string option" where
  "lut_match [] = None"
| "lut_match (c # cs) =
     (case lut_match_at (c # cs) of Some g \<Rightarrow> Some g | None \<Rightarrow> lut_match cs)"

text \<open>\<^verbatim>\<open>s.indexOf(pat)\<close>, which is -1 when \<open>pat\<close> does not occur, and
  \<^verbatim>\<open>s.substring(a, b)\<close>, which takes a negative bound as 0, a bound beyond the end as the
  length, and swaps the bounds when the first is the larger.\<close>

fun indexOf_from :: "nat \<Rightarrow> string \<Rightarrow> string \<Rightarrow> int" where
  "indexOf_from i [] pat = (if pat = [] then int i else - 1)"
| "indexOf_from i (c # cs) pat =
     (if take (length pat) (c # cs) = pat then int i else indexOf_from (Suc i) cs pat)"

definition indexOf :: "string \<Rightarrow> string \<Rightarrow> int" where
  "indexOf s pat = indexOf_from 0 s pat"

definition substring :: "string \<Rightarrow> int \<Rightarrow> int \<Rightarrow> string" where
  "substring s a b =
     (let a' = min (nat a) (length s); b' = min (nat b) (length s);
          lo = min a' b'; hi = max a' b'
      in take (hi - lo) (drop lo s))"

text \<open>What \<^verbatim>\<open>subprocess.run\<close> gets back from a child process.\<close>

record completed =
  returncode :: nat
  stdout :: string
  stderr :: string

definition js_exit :: "nat \<Rightarrow> js_proc \<Rightarrow> world \<Rightarrow> completed \<times> world" where
  "js_exit code p w = (\<lparr>returncode = code, stdout = js_stdout p, stderr = js_stderr p\<rparr>, w)"

text \<open>An error nobody catches ends the Node.js process with status 1 after a report on
  standard error; \<open>js_uncaught\<close> is the report, of which only the message is kept here.\<close>

definition js_uncaught :: "string \<Rightarrow> js_proc \<Rightarrow> js_proc" where
  "js_uncaught msg p = console_error [''Uncaught'', msg] p"

definition errno_name :: "errno \<Rightarrow> string" where
  "errno_name e = (case e of ENOENT \<Rightarrow> ''ENOENT'' | EEXIST \<Rightarrow> ''EEXIST''
                   | ENOTDIR \<Rightarrow> ''ENOTDIR'' | EISDIR \<Rightarrow> ''EISDIR'')"

definition mixbox_rel :: "string list" where
  "mixbox_rel = [''..'', ''reference-mixbox'', ''mixbox-master'', ''javascript'', ''mixbox.esm.js'']"

text \<open>
  The snippet is run by \<^verbatim>\<open>node extract_lut.js\<close> in the directory \<open>cwd w\<close>, which is also
  where the snippet lies (\<^verbatim>\<open>__dirname\<close>). Its lines 19 to 56 find the compressed string
  and the decompression code in \<^verbatim>\<open>mixbox.esm.js\<close> (read as text, one character per byte)
  and run that code: \<open>Inl (code, p)\<close> when the process ends there with status \<open>code\<close>,
  \<open>Inr (lut, p)\<close> with the decompressed buffer otherwise; \<open>p\<close> is what has been printed.
\<close>

definition decompress_lut :: "env \<Rightarrow> world \<Rightarrow> (nat \<times> js_proc) + (byte list \<times> js_proc)" where
  "decompress_lut e w =
     (let p0 = \<lparr>js_stdout = [], js_stderr = []\<rparr>;
          mixboxPath = resolve (cwd w) mixbox_rel
      in case fs_read (fs w) mixboxPath of
           Inl err \<Rightarrow> Inl (1, js_uncaught (errno_name err) p0)
         | Inr mixboxCode \<Rightarrow>
            (case lut_match mixboxCode of
               None \<Rightarrow> Inl (1, console_error [''Could not find LUT data in mixbox.esm.js''] p0)
             | Some compressedLut \<Rightarrow>
                (let p1 = console_log
                            [''Found compressed LUT, length:'', str (length compressedLut)] p0;
                     decompressFunctionStart = indexOf mixboxCode ''function decompress('';
                     decompressFunctionEnd = indexOf mixboxCode ''var lut = decompress''
                 in if decompressFunctionStart = - 1
                    then Inl (1, console_error [''Could not find decompress function''] p1)
                    else
                      (let decompressionCode =
                             substring mixboxCode decompressFunctionStart decompressFunctionEnd
                       in case foreign_decompress e decompressionCode compressedLut of
                            Inl msg \<Rightarrow> Inl (1, js_uncaught msg p1)
                          | Inr lut \<Rightarrow>
                             (let p2 = console_log
                                         [''Decompressed LUT, length:'', str (length lut)] p1;
                                  p3 = console_log [''Expected length: 786432 (64*64*64*3)''] p2
                              in Inr (lut, p3))))))"

text \<open>A read that succeeds is noted in the trace.\<close>

definition note_read :: "path \<Rightarrow> world \<Rightarrow> world" where
  "note_read p w =
     (case fs_read (fs w) p of Inl err \<Rightarrow> w | Inr d \<Rightarrow> w\<lparr>trace := trace w @ [Read p]\<rparr>)"

text \<open>The whole snippet: lines 58 to 77 normalise the size of the buffer and write it to
  \<^verbatim>\<open>mixbox_lut_raw.bin\<close> in the current directory.\<close>

definition extract_lut_js :: "env \<Rightarrow> world \<Rightarrow> completed \<times> world" where
  "extract_lut_js e w =
     (let w' = note_read (resolve (cwd w) mixbox_rel) w
      in case decompress_lut e w of
           Inl (code, p) \<Rightarrow> js_exit code p w'
         | Inr (lut, p3) \<Rightarrow>
            (case size_normalizer lut p3 of
               (Inl code, p4) \<Rightarrow> js_exit code p4 w'
             | (Inr lutBuffer, p4) \<Rightarrow>
                (let raw = resolve (cwd w) [''mixbox_lut_raw.bin'']
                 in case fs_write (fs w) raw lutBuffer of
                      Inl err \<Rightarrow> js_exit 1 (js_uncaught (errno_name err) p4) w'
                    | Inr fs' \<Rightarrow>
                       js_exit 0
                         (console_log
                            [''Written raw LUT to mixbox_lut_raw.bin ('' @
                             str (length lutBuffer) @ '' bytes)''] p4)
                         (w'\<lparr>fs := fs', trace := trace w' @ [Write raw]\<rparr>))))"

subsection \<open>The Python script: library calls\<close>

text \<open>\<^verbatim>\<open>print(s)\<close> and \<^verbatim>\<open>print(s, file=sys.stderr)\<close>; the event holds the text without the
  newline that ends it.\<close>

definition print :: "string \<Rightarrow> world \<Rightarrow> world" where
  "print s w = w\<lparr>trace := trace w @ [Print Stdout s]\<rparr>"

definition eprint :: "string \<Rightarrow> world \<Rightarrow> world" where
  "eprint s w = w\<lparr>trace := trace w @ [Print Stderr s]\<rparr>"

definition traceback_print_exc :: "exn \<Rightarrow> world \<Rightarrow> world" where
  "traceback_print_exc x w = w\<lparr>trace := trace w @ [Traceback x]\<rparr>"

text \<open>\<^verbatim>\<open>os.path.join\<close> of the components, and \<^verbatim>\<open>os.path.dirname\<close>.\<close>

definition os_path_join :: "string list \<Rightarrow> string" where
  "os_path_join parts = join ''/'' parts"

definition os_path_dirname :: "string list \<Rightarrow> string list" where
  "os_path_dirname parts = butlast parts"

text \<open>\<^verbatim>\<open>str(e)\<close> of an exception.\<close>

definition strerror :: "errno \<Rightarrow> string" where
  "strerror e = (case e of
      ENOENT \<Rightarrow> ''[Errno 2] No such file or directory''
    | EEXIST \<Rightarrow> ''[Errno 17] File exists''
    | ENOTDIR \<Rightarrow> ''[Errno 20] Not a directory''
    | EISDIR \<Rightarrow> ''[Errno 21] Is a directory'')"

definition str_exn :: "exn \<Rightarrow> string" where
  "str_exn x = (case x of
      OSError e name \<Rightarrow> strerror e @ '': '' @ [CHR 0x27] @ name @ [CHR 0x27]
    | CalledProcessError rc out err \<Rightarrow>
        ''Command '' @ [CHR 0x27] @ ''['' @ [CHR 0x27] @ ''node'' @ [CHR 0x27] @ '', '' @
        [CHR 0x27] @ ''extract_lut.js'' @ [CHR 0x27] @ '']'' @ [CHR 0x27] @
        '' returned non-zero exit status '' @ str rc @ ''.'')"

text \<open>\<^verbatim>\<open>os.chdir\<close> to the directory the interpreter has just loaded the running script
  from: it is there, so the call succeeds.\<close>

definition os_chdir :: "path \<Rightarrow> world \<Rightarrow> world" where
  "os_chdir d w = w\<lparr>cwd := d, trace := trace w @ [Chdir d]\<rparr>"

text \<open>\<^verbatim>\<open>with open(name, 'w') as f: f.write(data)\<close> and
  \<^verbatim>\<open>with open(name, 'rb') as f: f.read()\<close>.\<close>

definition open_write :: "string list \<Rightarrow> byte list \<Rightarrow> world \<Rightarrow> (exn + unit) \<times> world" where
  "open_write name d w =
     (let p = resolve (cwd w) name
      in case fs_write (fs w) p d of
           Inl err \<Rightarrow> (Inl (OSError err (os_path_join name)), w)
         | Inr fs' \<Rightarrow> (Inr (), w\<lparr>fs := fs', trace := trace w @ [Write p]\<rparr>))"

definition open_read :: "string list \<Rightarrow> world \<Rightarrow> (exn + byte list) \<times> world" where
  "open_read name w =
     (let p = resolve (cwd w) name
      in case fs_read (fs w) p of
           Inl err \<Rightarrow> (Inl (OSError err (os_path_join name)), w)
         | Inr d \<Rightarrow> (Inr d, w\<lparr>trace := trace w @ [Read p]\<rparr>))"

definition os_path_exists :: "string list \<Rightarrow> world \<Rightarrow> bool" where
  "os_path_exists name w = (fs w (resolve (cwd w) name) \<noteq> None)"

definition os_remove :: "string list \<Rightarrow> world \<Rightarrow> (exn + unit) \<times> world" where
  "os_remove name w =
     (let p = resolve (cwd w) name
      in case fs_remove (fs w) p of
           Inl err \<Rightarrow> (Inl (OSError err (os_path_join name)), w)
         | Inr fs' \<Rightarrow> (Inr (), w\<lparr>fs := fs', trace := trace w @ [Remove p]\<rparr>))"

text \<open>\<^verbatim>\<open>os.makedirs(name, exist_ok=True)\<close>: every component of \<open>name\<close> that is missing is
  created as a directory, from the left; a component that is there is stepped through when
  it is a directory and is an error when it is a file. \<open>seen\<close> holds the components already
  passed and \<open>d\<close> the directory they lead to. The components \<^verbatim>\<open>..\<close> and \<^verbatim>\<open>.\<close> name
  directories that exist.\<close>

fun makedirs_from :: "path \<Rightarrow> string list \<Rightarrow> string list \<Rightarrow> world \<Rightarrow> (exn + unit) \<times> world" where
  "makedirs_from d seen [] w = (Inr (), w)"
| "makedirs_from d seen (c # cs) w =
     (let d' = walk d c; seen' = seen @ [c]
      in if c = ''..'' \<or> c = ''.'' then makedirs_from d' seen' cs w
         else case fs w d' of
                Some Dir \<Rightarrow> makedirs_from d' seen' cs w
              | Some (File _) \<Rightarrow>
                  (Inl (OSError (if cs = [] then EEXIST else ENOTDIR) (os_path_join seen')), w)
              | None \<Rightarrow>
                  (case fs_mkdir (fs w) d' of
                     Inl err \<Rightarrow> (Inl (OSError err (os_path_join seen')), w)
                   | Inr fs' \<Rightarrow>
                       makedirs_from d' seen' cs (w\<lparr>fs := fs', trace := trace w @ [Mkdir d']\<rparr>)))"

definition os_makedirs :: "string list \<Rightarrow> world \<Rightarrow> (exn + unit) \<times> world" where
  "os_makedirs name w = makedirs_from (cwd w) [] name w"

text \<open>Writing a \<^verbatim>\<open>str\<close> to a file opened with \<^verbatim>\<open>encoding='utf-8'\<close>. The characters of
  the generated text are code points below 256: one below 128 is one byte, another is
  two.\<close>

definition utf8_char :: "char \<Rightarrow> byte list" where
  "utf8_char c =
     (let n = (of_char c :: nat)
      in if n < 128 then [c] else [char_of (192 + n div 64), char_of (128 + n mod 64)])"

definition utf8_encode :: "string \<Rightarrow> byte list" where
  "utf8_encode s = concat (map utf8_char s)"

subsection \<open>The Python script: its functions\<close>

text \<open>\<^verbatim>\<open>create_extraction_script\<close>, lines 16 to 81.\<close>

definition create_extraction_script :: "world \<Rightarrow> (exn + unit) \<times> world" where
  "create_extraction_script w = open_write [''extract_lut.js''] (utf8_encode js_script) w"

text \<open>\<^verbatim>\<open>subprocess.run(['node', 'extract_lut.js'], capture_output=True, text=True,
  check=True)\<close>, called when \<^verbatim>\<open>extract_lut.js\<close> in the current directory holds the snippet:
  \<^verbatim>\<open>FileNotFoundError\<close> when there is no \<^verbatim>\<open>node\<close> to start, \<^verbatim>\<open>CalledProcessError\<close> when
  the snippet ends with a status other than 0.\<close>

definition subprocess_run :: "env \<Rightarrow> world \<Rightarrow> (exn + completed) \<times> world" where
  "subprocess_run e w =
     (if \<not> node_installed e then (Inl (OSError ENOENT ''node''), w)
      else case extract_lut_js e w of
             (r, w') \<Rightarrow>
               if returncode r \<noteq> 0
               then (Inl (CalledProcessError (returncode r) (stdout r) (stderr r)), w')
               else (Inr r, w'))"

text \<open>\<^verbatim>\<open>run_extraction\<close>, lines 83 to 102. The two handlers take
  \<^verbatim>\<open>CalledProcessError\<close> and \<^verbatim>\<open>FileNotFoundError\<close>; any other exception leaves the function.\<close>

definition run_extraction :: "env \<Rightarrow> world \<Rightarrow> (exn + bool) \<times> world" where
  "run_extraction e w =
     (let w1 = print ''Running Node.js extraction script...'' w
      in case subprocess_run e w1 of
           (Inr result, w2) \<Rightarrow>
             (let w3 = print (stdout result) w2;
                  w4 = (if stderr result \<noteq> [] then eprint (''Warnings: '' @ stderr result) w3
                        else w3)
              in (Inr True, w4))
         | (Inl (CalledProcessError rc out err), w2) \<Rightarrow>
             (let w3 = eprint (''Error running extraction script: '' @
                               str_exn (CalledProcessError rc out err)) w2;
                  w4 = eprint (''stdout: '' @ out) w3;
                  w5 = eprint (''stderr: '' @ err) w4
              in (Inr False, w5))
         | (Inl (OSError ENOENT name), w2) \<Rightarrow>
             (Inr False,
              eprint ''Error: Node.js not found. Please install Node.js to run this script.'' w2)
         | (Inl x, w2) \<Rightarrow> (Inl x, w2))"

text \<open>\<^verbatim>\<open>convert_to_dart\<close>, lines 104 to 151. The header is the string of lines 115 to
  131; its two multiplication signs are the code point 215.\<close>

definition dart_header :: string where
  \<open>dart_header = concat [
      ''// ==========================================================\<newline>'',
      ''//  MIXBOX 2.0 LUT DATA\<newline>'',
      ''//  Automatically generated from mixbox.esm.js\<newline>'',
      ''//\<newline>'',
      ''//  This file contains the lookup table for Mixbox pigment mixing.\<newline>'',
      ''//  Original implementation: (c) 2022 Secret Weapons\<newline>'',
      ''//  License: Creative Commons Attribution-NonCommercial 4.0\<newline>'',
      ''// ==========================================================\<newline>'',
      ''\<newline>'',
      ''/// Mixbox Lookup Table (LUT) Data\<newline>'',
      ''///\<newline>'',
      ''/// This is a 64'' @ [CHR 0xD7] @ ''64'' @ [CHR 0xD7] @ ''64 lookup table that maps RGB colors to a\<newline>'',
      ''/// 7-dimensional latent space representing pigment mixing behavior.\<newline>'',
      ''///\<newline>'',
      ''/// Size: 786,432 bytes (64 * 64 * 64 * 3)\<newline>'',
      ''const List<int> mixboxLutData = [\<newline>'']\<close>

text \<open>The body of the loop, lines 135 to 138: the line for the chunk that starts at
  index \<open>i\<close>.\<close>

definition dart_line :: "byte list \<Rightarrow> nat \<Rightarrow> string" where
  "dart_line lut_data i =
     (let chunk = take 16 (drop i lut_data);
          line = ''  '' @ join '', '' (map (\<lambda>b. str (of_char b)) chunk)
      in if i + 16 < length lut_data then line @ '','' else line)"

text \<open>The loop of lines 134 to 139, \<^verbatim>\<open>for i in range(0, len(lut_data), 16)\<close>, started at
  \<open>i\<close> with the text built so far.\<close>

function emit_lines :: "byte list \<Rightarrow> nat \<Rightarrow> string \<Rightarrow> string" where
  "emit_lines lut_data i dart_code =
     (if i < length lut_data
      then emit_lines lut_data (i + 16) (dart_code @ dart_line lut_data i @ ''\<newline>'')
      else dart_code)"
  by pat_completeness auto
termination
  by (relation "measure (\<lambda>(lut_data, i, dart_code). length lut_data - i)") auto

declare emit_lines.simps [simp del]

definition dart_code_of :: "byte list \<Rightarrow> string" where
  "dart_code_of lut_data = emit_lines lut_data 0 dart_header @ ''];\<newline>''"

definition output_path :: "string list" where
  "output_path = [''..'', ''lib'', ''utils'', ''mixbox_lut_data.dart'']"

definition convert_to_dart :: "world \<Rightarrow> (exn + unit) \<times> world" where
  "convert_to_dart w =
     (let w1 = print ''Converting to Dart format...'' w
      in case open_read [''mixbox_lut_raw.bin''] w1 of
           (Inl x, w2) \<Rightarrow> (Inl x, w2)
         | (Inr lut_data, w2) \<Rightarrow>
            (let w3 = print (''Read '' @ str (length lut_data) @ '' bytes'') w2;
                 dart_code = dart_code_of lut_data
             in case os_makedirs (os_path_dirname output_path) w3 of
                  (Inl x, w4) \<Rightarrow> (Inl x, w4)
                | (Inr u, w4) \<Rightarrow>
                   (case open_write output_path (utf8_encode dart_code) w4 of
                      (Inl x, w5) \<Rightarrow> (Inl x, w5)
                    | (Inr u', w5) \<Rightarrow>
                       (let w6 = print (''Generated '' @ os_path_join output_path) w5;
                            w7 = print (''File size: '' @ str (length dart_code) @ '' bytes'') w6
                        in (Inr (), w7)))))"

text \<open>\<^verbatim>\<open>cleanup\<close>, lines 153 to 158: the loop over the two file names.\<close>

fun cleanup_loop :: "string list \<Rightarrow> world \<Rightarrow> (exn + unit) \<times> world" where
  "cleanup_loop [] w = (Inr (), w)"
| "cleanup_loop (filename # rest) w =
     (if os_path_exists [filename] w then
        (case os_remove [filename] w of
           (Inl x, w1) \<Rightarrow> (Inl x, w1)
         | (Inr u, w1) \<Rightarrow> cleanup_loop rest (print (''Cleaned up '' @ filename) w1))
      else cleanup_loop rest w)"

definition cleanup :: "world \<Rightarrow> (exn + unit) \<times> world" where
  "cleanup w = cleanup_loop [''extract_lut.js'', ''mixbox_lut_raw.bin''] w"

text \<open>The body of the \<^verbatim>\<open>try\<close> of \<^verbatim>\<open>main\<close>, lines 171 to 201: \<open>Inr code\<close> is
  \<^verbatim>\<open>return code\<close>, \<open>Inl x\<close> an exception on its way to the handler.\<close>

definition main_try :: "env \<Rightarrow> world \<Rightarrow> (exn + nat) \<times> world" where
  "main_try e w =
     (let w1 = print ''Step 1: Creating Node.js extraction script...'' w
      in case create_extraction_script w1 of
           (Inl x, w2) \<Rightarrow> (Inl x, w2)
         | (Inr u, w2) \<Rightarrow>
            (let w3 = print [] (print ''[OK] Created extract_lut.js'' w2);
                 w4 = print ''Step 2: Extracting LUT from mixbox.esm.js...'' w3
             in case run_extraction e w4 of
                  (Inl x, w5) \<Rightarrow> (Inl x, w5)
                | (Inr ok, w5) \<Rightarrow>
                   if \<not> ok then (Inr 1, print ''[FAIL] Extraction failed'' w5)
                   else
                     (let w6 = print [] (print ''[OK] Extraction complete'' w5);
                          w7 = print ''Step 3: Converting to Dart format...'' w6
                      in case convert_to_dart w7 of
                           (Inl x, w8) \<Rightarrow> (Inl x, w8)
                         | (Inr u', w8) \<Rightarrow>
                            (let w9 = print [] (print ''[OK] Dart file generated'' w8);
                                 w10 = print ''Step 4: Cleaning up temporary files...'' w9
                             in case cleanup w10 of
                                  (Inl x, w11) \<Rightarrow> (Inl x, w11)
                                | (Inr u'', w11) \<Rightarrow>
                                   (let w12 = print [] (print ''[OK] Cleanup complete'' w11);
                                        w13 = print (replicate 60 (CHR ''='')) w12;
                                        w14 = print
                                          ''SUCCESS! Mixbox LUT has been extracted and converted.''
                                          w13;
                                        w15 = print ''Output: lib/utils/mixbox_lut_data.dart'' w14;
                                        w16 = print (replicate 60 (CHR ''='')) w15
                                    in (Inr 0, w16))))))"

text \<open>\<^verbatim>\<open>main\<close>, lines 160 to 207; its value is the status \<^verbatim>\<open>sys.exit(main())\<close> ends the
  process with.\<close>

definition main :: "env \<Rightarrow> world \<Rightarrow> nat \<times> world" where
  "main e w0 =
     (let w1 = print (replicate 60 (CHR ''='')) w0;
          w2 = print ''Mixbox LUT Extraction Script'' w1;
          w3 = print (replicate 60 (CHR ''='')) w2;
          w4 = print [] w3;
          w5 = os_chdir (script_dir e) w4
      in case main_try e w5 of
           (Inr code, w) \<Rightarrow> (code, w)
         | (Inl x, w) \<Rightarrow>
             (1, traceback_print_exc x (eprint (''\<newline>[ERROR] '' @ str_exn x) w)))"

subsection \<open>Reading the generated text\<close>

text \<open>
  The claims speak of the entries and the lines of the generated literal. These functions
  read them off a text: the pieces between occurrences of a character, a piece without the
  blanks around it, the number a decimal numeral stands for, the text between the first
  opening bracket and the closing bracket after it, and the lines of a text.
\<close>

fun split_on :: "char \<Rightarrow> string \<Rightarrow> string list" where
  "split_on c [] = [[]]"
| "split_on c (x # xs) =
     (if x = c then [] # split_on c xs
      else (case split_on c xs of [] \<Rightarrow> [[x]] | t # ts \<Rightarrow> (x # t) # ts))"

definition is_space :: "char \<Rightarrow> bool" where
  "is_space c = (c = CHR '' '' \<or> c = CHR ''\<newline>'')"

definition strip :: "string \<Rightarrow> string" where
  "strip s = rev (dropWhile is_space (rev (dropWhile is_space s)))"

definition is_digit :: "char \<Rightarrow> bool" where
  "is_digit c = (48 \<le> (of_char c :: nat) \<and> (of_char c :: nat) \<le> 57)"

definition parse_dec :: "string \<Rightarrow> nat option" where
  "parse_dec s =
     (if s \<noteq> [] \<and> list_all is_digit s
      then Some (foldl (\<lambda>a c. 10 * a + (of_char c - 48)) 0 s) else None)"

definition literal_body :: "string \<Rightarrow> string" where
  "literal_body text =
     takeWhile (\<lambda>c. c \<noteq> CHR '']'') (tl (dropWhile (\<lambda>c. c \<noteq> CHR ''['') text))"

definition literal_entries :: "string \<Rightarrow> nat option list" where
  "literal_entries text = map (\<lambda>t. parse_dec (strip t)) (split_on (CHR '','') (literal_body text))"



text \<open>The characters a data line is made of.\<close>

definition plain :: "char \<Rightarrow> bool" where
  "plain c = (is_digit c \<or> c = CHR '' '' \<or> c = CHR '','')"

subsection \<open>Names for what the claims speak of\<close>

text \<open>The decompressed buffer, when the snippet gets as far as having one.\<close>

definition decompressed :: "env \<Rightarrow> world \<Rightarrow> byte list option" where
  "decompressed e w = (case decompress_lut e w of Inl a \<Rightarrow> None | Inr (lut, p) \<Rightarrow> Some lut)"

text \<open>The files of a run: after \<^verbatim>\<open>os.chdir(script_dir)\<close> the relative names of the two
  programs are resolved against the directory of the script.\<close>

definition snippet_path :: "env \<Rightarrow> path" where
  "snippet_path e = resolve (script_dir e) [''extract_lut.js'']"

definition raw_path :: "env \<Rightarrow> path" where
  "raw_path e = resolve (script_dir e) [''mixbox_lut_raw.bin'']"

definition input_path :: "env \<Rightarrow> path" where
  "input_path e = resolve (script_dir e) mixbox_rel"

definition out_path :: "env \<Rightarrow> path" where
  "out_path e = resolve (script_dir e) output_path"

text \<open>The events a run of \<open>main\<close> adds to the trace, and the world it leaves.\<close>

definition run_events :: "env \<Rightarrow> world \<Rightarrow> event list" where
  "run_events e w = drop (length (trace w)) (trace (snd (main e w)))"

text \<open>The world in which the body of the \<^verbatim>\<open>try\<close> starts: the banner is printed and the
  working directory is that of the script (lines 161 to 168).\<close>

definition at_start :: "env \<Rightarrow> world \<Rightarrow> world" where
  "at_start e w0 =
     os_chdir (script_dir e)
       (print [] (print (replicate 60 (CHR ''=''))
          (print ''Mixbox LUT Extraction Script'' (print (replicate 60 (CHR ''='')) w0))))"

text \<open>A text contains the declaration pattern \<^verbatim>\<open>var lut = decompress("...");\<close> when it has
  the opening text, then one or more characters none of which is a double quote, then the
  closing text.\<close>

definition contains_pattern :: "string \<Rightarrow> bool" where
  \<open>contains_pattern s \<longleftrightarrow>
     (\<exists>before grp after.
        s = before @ ''var lut = decompress("'' @ grp @ ''");'' @ after \<and>
        grp \<noteq> [] \<and> CHR 0x22 \<notin> set grp)\<close>

subsection \<open>Events of a run\<close>

text \<open>The events of a trace that touch the file system or the working directory: all but
  what is printed.\<close>

definition is_print :: "event \<Rightarrow> bool" where
  "is_print ev = (case ev of Print s m \<Rightarrow> True | Traceback x \<Rightarrow> True | _ \<Rightarrow> False)"

definition file_events :: "event list \<Rightarrow> event list" where
  "file_events evs = filter (\<lambda>ev. \<not> is_print ev) evs"

subsection \<open>A repository to run the script in\<close>

text \<open>A small input file with the shape of \<^verbatim>\<open>mixbox.esm.js\<close>, a file system that holds it
  where the script looks for it, and the surroundings of a run in which the decompression
  code of that file yields a given buffer. The script lies in \<^verbatim>\<open>/repo/scripts\<close> and is started
  from \<^verbatim>\<open>/home\<close>.\<close>

definition sample_code :: string where
  \<open>sample_code =
     ''function decompress(s) { return inflate(s); }\<newline>var lut = decompress("eJzt");\<newline>''\<close>

definition sample_fs :: filesystem where
  "sample_fs = Map.empty
     ([] \<mapsto> Dir,
      [''home''] \<mapsto> Dir,
      [''repo''] \<mapsto> Dir,
      [''repo'', ''scripts''] \<mapsto> Dir,
      [''repo'', ''reference-mixbox''] \<mapsto> Dir,
      [''repo'', ''reference-mixbox'', ''mixbox-master''] \<mapsto> Dir,
      [''repo'', ''reference-mixbox'', ''mixbox-master'', ''javascript''] \<mapsto> Dir,
      [''repo'', ''reference-mixbox'', ''mixbox-master'', ''javascript'', ''mixbox.esm.js'']
         \<mapsto> File sample_code)"

definition sample_env :: "byte list \<Rightarrow> env" where
  "sample_env lut =
     \<lparr>script_dir = [''repo'', ''scripts''], node_installed = True,
      foreign_decompress =
        (\<lambda>code s. if s = ''eJzt'' then Inr lut else Inl ''incorrect header check'')\<rparr>"

definition sample_world :: world where
  "sample_world = \<lparr>fs = sample_fs, cwd = [''home''], trace = []\<rparr>"

section \<open>Decimal numerals, splitting and the emitted lines\<close>

lemma of_char_digit_char: "k < 10 \<Longrightarrow> (of_char (digit_char k) :: nat) = 48 + k"
  by (simp add: digit_char_def of_char_of)

lemma is_digit_digit_char: "k < 10 \<Longrightarrow> is_digit (digit_char k)"
  by (simp add: is_digit_def of_char_digit_char)

lemma str_nonempty: "str n \<noteq> []"
  by (subst str.simps) simp

lemma str_digits: "list_all is_digit (str n)"
proof (induction n rule: str.induct)
  case (1 n)
  show ?case
  proof (cases "n < 10")
    case True
    then show ?thesis by (subst str.simps) (simp add: is_digit_digit_char)
  next
    case False
    with 1 show ?thesis by (subst str.simps) (simp add: is_digit_digit_char)
  qed
qed

lemma str_value: "foldl (\<lambda>a c. 10 * a + (of_char c - 48)) 0 (str n) = n"
proof (induction n rule: str.induct)
  case (1 n)
  show ?case
  proof (cases "n < 10")
    case True
    then show ?thesis by (subst str.simps) (simp add: of_char_digit_char)
  next
    case False
    with 1 show ?thesis by (subst str.simps) (simp add: of_char_digit_char)
  qed
qed

lemma parse_dec_str: "parse_dec (str n) = Some n"
  by (simp add: parse_dec_def str_nonempty str_digits str_value)

lemma digit_not_space: "is_digit c \<Longrightarrow> \<not> is_space c"
  by (auto simp: is_digit_def is_space_def)

lemma digit_not_comma: "is_digit c \<Longrightarrow> c \<noteq> CHR '',''"
  by (auto simp: is_digit_def)

lemma digit_not_newline: "is_digit c \<Longrightarrow> c \<noteq> CHR ''\<newline>''"
  by (auto simp: is_digit_def)

lemma dropWhile_spaces: "list_all is_space w \<Longrightarrow> s \<noteq> [] \<Longrightarrow> \<not> is_space (hd s) \<Longrightarrow> dropWhile is_space (w @ s) = s"
  by (induction w) (auto simp: neq_Nil_conv)

lemma strip_padded:
  assumes "list_all is_space w" "list_all is_space w'" "s \<noteq> []" "\<not> is_space (hd s)" "\<not> is_space (last s)"
  shows "strip (w @ s @ w') = s"
proof -
  have a: "dropWhile is_space (w @ s @ w') = s @ w'"
    using assms dropWhile_spaces[of w "s @ w'"] by simp
  have b: "dropWhile is_space (rev w' @ rev s) = rev s"
    using assms dropWhile_spaces[of "rev w'" "rev s"] by (simp add: hd_rev)
  show ?thesis by (simp add: strip_def a b)
qed

lemma strip_str: "list_all is_space w \<Longrightarrow> list_all is_space w' \<Longrightarrow> strip (w @ str n @ w') = str n"
proof (rule strip_padded)
  have d: "list_all is_digit (str n)" by (rule str_digits)
  have ne: "str n \<noteq> []" by (rule str_nonempty)
  show "str n \<noteq> []" by (rule ne)
  from d ne have "is_digit (hd (str n))" by (cases "str n") auto
  then show "\<not> is_space (hd (str n))" by (rule digit_not_space)
  from d ne have "is_digit (last (str n))" by (simp add: list_all_iff)
  then show "\<not> is_space (last (str n))" by (rule digit_not_space)
qed

lemma split_on_nonempty: "split_on c s \<noteq> []"
  by (induction s) (auto split: list.splits)

lemma split_on_none: "c \<notin> set a \<Longrightarrow> split_on c a = [a]"
  by (induction a) auto

lemma split_on_first: "c \<notin> set a \<Longrightarrow> split_on c (a @ c # rest) = a # split_on c rest"
  by (induction a) auto

lemma str_no_comma: "CHR '','' \<notin> set (str n)"
proof
  assume "CHR '','' \<in> set (str n)"
  with str_digits[of n] have "is_digit (CHR '','')" by (simp add: list_all_iff)
  then show False by (simp add: is_digit_def)
qed

lemma tok_str: "list_all is_space w \<Longrightarrow> list_all is_space w' \<Longrightarrow> parse_dec (strip (w @ str n @ w')) = Some n"
  by (simp only: strip_str parse_dec_str)

lemma space_no_comma: "list_all is_space w \<Longrightarrow> CHR '','' \<notin> set w"
proof
  assume "list_all is_space w" "CHR '','' \<in> set w"
  then have "is_space (CHR '','')" by (simp add: list_all_iff)
  then show False by (simp add: is_space_def)
qed

lemma join_Cons2: "bs \<noteq> [] \<Longrightarrow> join sep (x # bs) = x @ sep @ join sep bs"
  by (cases bs) simp_all

lemma entries_join_comma:
  "bs \<noteq> [] \<Longrightarrow> list_all is_space w \<Longrightarrow>
   map (\<lambda>t. parse_dec (strip t)) (split_on (CHR '','') (w @ join '', '' (map (\<lambda>b. str (of_char b)) bs) @ CHR '','' # T))
   = map (\<lambda>b. Some (of_char b)) bs @ map (\<lambda>t. parse_dec (strip t)) (split_on (CHR '','') T)"
proof (induction bs arbitrary: w)
  case Nil
  then show ?case by simp
next
  case (Cons b bs)
  let ?sb = "\<lambda>b::char. str (of_char b)"
  let ?tok = "\<lambda>t. parse_dec (strip t)"
  have nc: "CHR '','' \<notin> set (w @ ?sb b)"
    using Cons.prems(2) by (simp add: str_no_comma space_no_comma)
  have t: "?tok (w @ ?sb b) = Some (of_char b)"
    using tok_str[OF Cons.prems(2), of "[]" "of_char b"] by simp
  show ?case
  proof (cases "bs = []")
    case True
    have "w @ join '', '' (map ?sb (b # bs)) @ CHR '','' # T = (w @ ?sb b) @ CHR '','' # T"
      using True by simp
    then have B: "map ?tok (split_on (CHR '','') (w @ join '', '' (map ?sb (b # bs)) @ CHR '','' # T))
        = Some (of_char b) # map ?tok (split_on (CHR '','') T)"
      by (simp only: split_on_first[OF nc] list.map t)
    show ?thesis unfolding B using True by simp
  next
    case False
    have sp: "list_all is_space '' ''" by (simp add: is_space_def)
    have "w @ join '', '' (map ?sb (b # bs)) @ CHR '','' # T
        = (w @ ?sb b) @ CHR '','' # ('' '' @ join '', '' (map ?sb bs) @ CHR '','' # T)"
      using False by (simp add: join_Cons2)
    then have B: "map ?tok (split_on (CHR '','') (w @ join '', '' (map ?sb (b # bs)) @ CHR '','' # T))
        = Some (of_char b) # (map (\<lambda>b. Some (of_char b)) bs @ map ?tok (split_on (CHR '','') T))"
      by (simp only: split_on_first[OF nc] list.map t Cons.IH[OF False sp])
    show ?thesis unfolding B by simp
  qed
qed

lemma entries_join_end:
  "bs \<noteq> [] \<Longrightarrow> list_all is_space w \<Longrightarrow> list_all is_space w' \<Longrightarrow>
   map (\<lambda>t. parse_dec (strip t)) (split_on (CHR '','') (w @ join '', '' (map (\<lambda>b. str (of_char b)) bs) @ w'))
   = map (\<lambda>b. Some (of_char b)) bs"
proof (induction bs arbitrary: w)
  case Nil
  then show ?case by simp
next
  case (Cons b bs)
  let ?sb = "\<lambda>b::char. str (of_char b)"
  let ?tok = "\<lambda>t. parse_dec (strip t)"
  show ?case
  proof (cases "bs = []")
    case True
    have nc: "CHR '','' \<notin> set (w @ ?sb b @ w')"
      using Cons.prems by (simp add: str_no_comma space_no_comma)
    have "w @ join '', '' (map ?sb (b # bs)) @ w' = w @ ?sb b @ w'"
      using True by simp
    then have B: "map ?tok (split_on (CHR '','') (w @ join '', '' (map ?sb (b # bs)) @ w')) = [Some (of_char b)]"
      by (simp only: split_on_none[OF nc] list.map tok_str[OF Cons.prems(2,3)])
    show ?thesis unfolding B using True by simp
  next
    case False
    have nc: "CHR '','' \<notin> set (w @ ?sb b)"
      using Cons.prems(2) by (simp add: str_no_comma space_no_comma)
    have t: "?tok (w @ ?sb b) = Some (of_char b)"
      using tok_str[OF Cons.prems(2), of "[]" "of_char b"] by simp
    have sp: "list_all is_space '' ''" by (simp add: is_space_def)
    have "w @ join '', '' (map ?sb (b # bs)) @ w'
        = (w @ ?sb b) @ CHR '','' # ('' '' @ join '', '' (map ?sb bs) @ w')"
      using False by (simp add: join_Cons2)
    then have B: "map ?tok (split_on (CHR '','') (w @ join '', '' (map ?sb (b # bs)) @ w'))
        = Some (of_char b) # map (\<lambda>b. Some (of_char b)) bs"
      by (simp only: split_on_first[OF nc] list.map t Cons.IH[OF False sp Cons.prems(3)])
    show ?thesis unfolding B by simp
  qed
qed

lemma emit_lines_eq:
  "emit_lines lut (16 * k) acc =
     acc @ concat (map (\<lambda>j. dart_line lut (16 * j) @ ''\<newline>'') [k..<(length lut + 15) div 16])"
proof (induction "(length lut + 15) div 16 - k" arbitrary: k acc)
  case 0
  then have "\<not> 16 * k < length lut" by linarith
  moreover from 0 have "[k..<(length lut + 15) div 16] = []" by simp
  ultimately show ?case by (subst emit_lines.simps) simp
next
  case (Suc d)
  then have lt: "k < (length lut + 15) div 16" by linarith
  then have lt': "16 * k < length lut" by linarith
  have d: "d = (length lut + 15) div 16 - Suc k" using Suc(2) by linarith
  have step: "emit_lines lut (16 * k) acc = emit_lines lut (16 * k + 16) (acc @ dart_line lut (16 * k) @ ''\<newline>'')"
    using lt' by (subst emit_lines.simps) simp
  have e: "16 * k + 16 = 16 * Suc k" by simp
  have u: "[k..<(length lut + 15) div 16] = k # [Suc k..<(length lut + 15) div 16]"
    using lt by (simp add: upt_conv_Cons)
  have "emit_lines lut (16 * k) acc = emit_lines lut (16 * Suc k) (acc @ dart_line lut (16 * k) @ ''\<newline>'')"
    by (simp only: step e)
  also have "\<dots> = (acc @ dart_line lut (16 * k) @ ''\<newline>'') @
       concat (map (\<lambda>j. dart_line lut (16 * j) @ ''\<newline>'') [Suc k..<(length lut + 15) div 16])"
    by (rule Suc(1)[OF d])
  finally show ?case by (simp only: u list.map concat.simps append_assoc)
qed

lemma entries_body:
  "k < (length lut + 15) div 16 \<Longrightarrow> list_all is_space w \<Longrightarrow>
   map (\<lambda>t. parse_dec (strip t))
     (split_on (CHR '','')
        (w @ concat (map (\<lambda>j. dart_line lut (16 * j) @ ''\<newline>'') [k..<(length lut + 15) div 16])))
   = map (\<lambda>b. Some (of_char b)) (drop (16 * k) lut)"
proof (induction "(length lut + 15) div 16 - k" arbitrary: k w)
  case 0
  then show ?case by simp
next
  case (Suc d)
  let ?m = "(length lut + 15) div 16"
  let ?sb = "\<lambda>b::char. str (of_char b)"
  let ?tok = "\<lambda>t. parse_dec (strip t)"
  let ?body = "\<lambda>k. concat (map (\<lambda>j. dart_line lut (16 * j) @ ''\<newline>'') [k..<?m])"
  let ?chunk = "take 16 (drop (16 * k) lut)"
  have lt: "k < ?m" by (rule Suc.prems(1))
  then have lt': "16 * k < length lut" by linarith
  have ne: "?chunk \<noteq> []" using lt' by simp
  have u: "?body k = dart_line lut (16 * k) @ ''\<newline>'' @ ?body (Suc k)"
    using lt by (simp add: upt_conv_Cons)
  have sp2: "list_all is_space (w @ ''  '')" using Suc.prems(2) by (simp add: is_space_def)
  show ?case
  proof (cases "Suc k < ?m")
    case True
    then have more: "16 * k + 16 < length lut" by linarith
    have d: "d = ?m - Suc k" using Suc(2) by linarith
    have nl: "list_all is_space ''\<newline>''" by (simp add: is_space_def)
    have line: "dart_line lut (16 * k) = ''  '' @ join '', '' (map ?sb ?chunk) @ '',''"
      using more by (simp add: dart_line_def)
    have shape: "w @ ?body k = (w @ ''  '') @ join '', '' (map ?sb ?chunk) @ CHR '','' # (''\<newline>'' @ ?body (Suc k))"
      by (simp only: u line) simp
    have "map ?tok (split_on (CHR '','') (w @ ?body k))
        = map (\<lambda>b. Some (of_char b)) ?chunk @ map ?tok (split_on (CHR '','') (''\<newline>'' @ ?body (Suc k)))"
      by (simp only: shape entries_join_comma[OF ne sp2])
    also have "map ?tok (split_on (CHR '','') (''\<newline>'' @ ?body (Suc k))) = map (\<lambda>b. Some (of_char b)) (drop (16 * Suc k) lut)"
      by (rule Suc(1)[OF d True nl])
    also have "map (\<lambda>b. Some (of_char b)) ?chunk @ map (\<lambda>b. Some (of_char b)) (drop (16 * Suc k) lut)
        = map (\<lambda>b. Some (of_char b)) (?chunk @ drop 16 (drop (16 * k) lut))"
      by (simp add: add.commute)
    also have "?chunk @ drop 16 (drop (16 * k) lut) = drop (16 * k) lut"
      by (rule append_take_drop_id)
    finally show ?thesis .
  next
    case False
    then have last: "\<not> 16 * k + 16 < length lut" by linarith
    have e: "[Suc k..<?m] = []" using False by simp
    have nl: "list_all is_space ''\<newline>''" by (simp add: is_space_def)
    have line: "dart_line lut (16 * k) = ''  '' @ join '', '' (map ?sb ?chunk)"
      using last by (simp add: dart_line_def)
    have shape: "w @ ?body k = (w @ ''  '') @ join '', '' (map ?sb ?chunk) @ ''\<newline>''"
      by (simp only: u line e) simp
    have "map ?tok (split_on (CHR '','') (w @ ?body k)) = map (\<lambda>b. Some (of_char b)) ?chunk"
      by (simp only: shape entries_join_end[OF ne sp2 nl])
    also have "?chunk = drop (16 * k) lut" using last by simp
    finally show ?thesis .
  qed
qed

lemma header_bracket: "dropWhile (\<lambda>c. c \<noteq> CHR ''['') (utf8_encode dart_header) = ''[\<newline>''"
  by code_simp

lemma utf8_encode_append: "utf8_encode (a @ b) = utf8_encode a @ utf8_encode b"
  by (simp add: utf8_encode_def)

lemma utf8_encode_ascii: "\<forall>c\<in>set s. (of_char c :: nat) < 128 \<Longrightarrow> utf8_encode s = s"
  by (induction s) (simp_all add: utf8_encode_def utf8_char_def)

lemma not_plain: "\<not> plain (CHR ''\<newline>'')" "\<not> plain (CHR '']'')"
  by (simp_all add: plain_def is_digit_def)

lemma plain_ascii: "plain c \<Longrightarrow> (of_char c :: nat) < 128"
  unfolding plain_def is_digit_def by (elim disjE) simp_all

lemma join_chars: "set (join sep xs) \<subseteq> set sep \<union> \<Union> (set ` set xs)"
  by (induction sep xs rule: join.induct) auto

lemma str_plain: "c \<in> set (str n) \<Longrightarrow> plain c"
  using str_digits[of n] by (simp add: list_all_iff plain_def)

lemma dart_line_plain: "c \<in> set (dart_line lut i) \<Longrightarrow> plain c"
proof -
  assume c: "c \<in> set (dart_line lut i)"
  let ?xs = "map (\<lambda>b. str (of_char b)) (take 16 (drop i lut))"
  from c have "c \<in> set ''  '' \<or> c \<in> set (join '', '' ?xs) \<or> c = CHR '',''"
    by (simp add: dart_line_def Let_def split: if_splits, blast+)
  moreover have "c \<in> set (join '', '' ?xs) \<Longrightarrow> c \<in> set '', '' \<or> (\<exists>b. c \<in> set (str b))"
    using join_chars[of "'', ''" ?xs] by fastforce
  ultimately have "c = CHR '' '' \<or> c = CHR '','' \<or> (\<exists>b. c \<in> set (str b))"
    by fastforce
  then show "plain c" using str_plain by (elim disjE exE) (simp_all add: plain_def)
qed

lemma body_plain:
  "c \<in> set (concat (map (\<lambda>j. dart_line lut (16 * j) @ ''\<newline>'') ks)) \<Longrightarrow> plain c \<or> c = CHR ''\<newline>''"
  using dart_line_plain by (induction ks) fastforce+





lemma dart_code_of_eq:
  "dart_code_of lut = dart_header @
     concat (map (\<lambda>j. dart_line lut (16 * j) @ ''\<newline>'') [0..<(length lut + 15) div 16]) @ ''];\<newline>''"
  using emit_lines_eq[of lut 0 dart_header] by (simp add: dart_code_of_def)

lemma literal_entries_dart:
  assumes "lut \<noteq> []"
  shows "literal_entries (utf8_encode (dart_code_of lut)) = map (\<lambda>b. Some (of_char b)) lut"
proof -
  let ?m = "(length lut + 15) div 16"
  define body where "body = concat (map (\<lambda>j. dart_line lut (16 * j) @ ''\<newline>'') [0..<?m])"
  define h where "h = utf8_encode dart_header"
  let ?P = "\<lambda>c. c \<noteq> CHR ''[''"
  let ?Q = "\<lambda>c. c \<noteq> CHR '']''"
  have pl: "\<And>c. c \<in> set body \<Longrightarrow> plain c \<or> c = CHR ''\<newline>''"
    unfolding body_def by (rule body_plain)
  have asc: "\<forall>c\<in>set (body @ ''];\<newline>''). (of_char c :: nat) < 128"
  proof
    fix c assume "c \<in> set (body @ ''];\<newline>'')"
    then have "c \<in> set body \<or> c = CHR '']'' \<or> c = CHR '';'' \<or> c = CHR ''\<newline>''"
      by simp blast
    then consider "plain c" | "c = CHR '']''" | "c = CHR '';''" | "c = CHR ''\<newline>''"
      using pl by blast
    then show "(of_char c :: nat) < 128"
      by cases (simp_all add: plain_ascii)
  qed
  have enc: "utf8_encode (dart_code_of lut) = h @ body @ ''];\<newline>''"
    using utf8_encode_ascii[OF asc] by (simp only: dart_code_of_eq utf8_encode_append body_def h_def)
  have hb: "dropWhile ?P h = ''[\<newline>''"
    unfolding h_def by (rule header_bracket)
  have hsplit: "h = takeWhile ?P h @ ''[\<newline>''"
    using takeWhile_dropWhile_id[of ?P h] by (simp only: hb)
  have "dropWhile ?P (h @ body @ ''];\<newline>'') = dropWhile ?P (takeWhile ?P h @ (''[\<newline>'' @ body @ ''];\<newline>''))"
    using hsplit by (metis append_assoc)
  also have "\<dots> = dropWhile ?P (''[\<newline>'' @ body @ ''];\<newline>'')"
    by (rule dropWhile_append2) (blast dest: set_takeWhileD)
  also have "\<dots> = ''[\<newline>'' @ body @ ''];\<newline>''" by simp
  finally have dw: "tl (dropWhile ?P (h @ body @ ''];\<newline>'')) = (''\<newline>'' @ body) @ CHR '']'' # '';\<newline>''"
    by simp
  have nb: "\<forall>c\<in>set (''\<newline>'' @ body). ?Q c"
  proof
    fix c assume "c \<in> set (''\<newline>'' @ body)"
    then have "c = CHR ''\<newline>'' \<or> c \<in> set body" by simp
    then have "c = CHR ''\<newline>'' \<or> plain c" using pl by blast
    then show "?Q c" using not_plain(2) by (elim disjE) (simp, blast)
  qed
  have "takeWhile ?Q ((''\<newline>'' @ body) @ CHR '']'' # '';\<newline>'') = takeWhile ?Q (''\<newline>'' @ body)"
    by (rule takeWhile_tail) simp
  also have "\<dots> = ''\<newline>'' @ body"
    using nb by (simp only: takeWhile_eq_all_conv)
  finally have tw: "takeWhile ?Q ((''\<newline>'' @ body) @ CHR '']'' # '';\<newline>'') = ''\<newline>'' @ body" .
  have lb: "literal_body (utf8_encode (dart_code_of lut)) = ''\<newline>'' @ body"
    unfolding literal_body_def enc dw by (rule tw)
  have pos: "0 < ?m" using assms by (cases lut) simp_all
  have nl: "list_all is_space ''\<newline>''" by (simp add: is_space_def)
  show ?thesis
    unfolding literal_entries_def lb body_def using entries_body[OF pos nl] by simp
qed

section \<open>The stages of the pipeline\<close>

lemma print_simps [simp]:
  "fs (print s w) = fs w" "cwd (print s w) = cwd w" "trace (print s w) = trace w @ [Print Stdout s]"
  by (simp_all add: print_def)

lemma eprint_simps [simp]:
  "fs (eprint s w) = fs w" "cwd (eprint s w) = cwd w" "trace (eprint s w) = trace w @ [Print Stderr s]"
  by (simp_all add: eprint_def)

lemma traceback_simps [simp]:
  "fs (traceback_print_exc x w) = fs w" "cwd (traceback_print_exc x w) = cwd w"
  "trace (traceback_print_exc x w) = trace w @ [Traceback x]"
  by (simp_all add: traceback_print_exc_def)

lemma os_chdir_simps [simp]:
  "fs (os_chdir d w) = fs w" "cwd (os_chdir d w) = d" "trace (os_chdir d w) = trace w @ [Chdir d]"
  by (simp_all add: os_chdir_def)

lemma resolve_snippet: "resolve d [''extract_lut.js''] = d @ [''extract_lut.js'']"
  by (simp add: resolve_def walk_def)

lemma resolve_raw: "resolve d [''mixbox_lut_raw.bin''] = d @ [''mixbox_lut_raw.bin'']"
  by (simp add: resolve_def walk_def)

lemma resolve_mixbox:
  "resolve d mixbox_rel =
     butlast d @ [''reference-mixbox'', ''mixbox-master'', ''javascript'', ''mixbox.esm.js'']"
  by (simp add: resolve_def walk_def mixbox_rel_def)

lemma resolve_output:
  "resolve d output_path = butlast d @ [''lib'', ''utils'', ''mixbox_lut_data.dart'']"
  by (simp add: resolve_def walk_def output_path_def)

lemma last_neq: "p \<noteq> [] \<Longrightarrow> q \<noteq> [] \<Longrightarrow> last p \<noteq> last q \<Longrightarrow> p \<noteq> q"
  by blast


lemma snoc_neq2: "a \<noteq> c \<Longrightarrow> xs @ [a] \<noteq> ys @ [b, c]"
proof
  assume "a \<noteq> c" and "xs @ [a] = ys @ [b, c]"
  then have "last (xs @ [a]) = last (ys @ [b, c])" by simp
  with \<open>a \<noteq> c\<close> show False by simp
qed

lemma snoc_neq3: "a \<noteq> c \<Longrightarrow> xs @ [a] \<noteq> ys @ [b1, b2, c]"
proof
  assume "a \<noteq> c" and "xs @ [a] = ys @ [b1, b2, c]"
  then have "last (xs @ [a]) = last (ys @ [b1, b2, c])" by simp
  with \<open>a \<noteq> c\<close> show False by simp
qed

lemma snoc_neq4: "a \<noteq> c \<Longrightarrow> xs @ [a] \<noteq> ys @ [b1, b2, b3, c]"
proof
  assume "a \<noteq> c" and "xs @ [a] = ys @ [b1, b2, b3, c]"
  then have "last (xs @ [a]) = last (ys @ [b1, b2, b3, c])" by simp
  with \<open>a \<noteq> c\<close> show False by simp
qed

lemma butlast_neq_snoc: "butlast d \<noteq> d @ [a]"
proof
  assume "butlast d = d @ [a]"
  then have "length (butlast d) = length (d @ [a])" by simp
  then show False by simp
qed

lemma path_neq [simp]:
  "a \<noteq> c \<Longrightarrow> (xs @ [a] = ys @ [b, c]) = False"
  "a \<noteq> c \<Longrightarrow> (ys @ [b, c] = xs @ [a]) = False"
  "a \<noteq> c \<Longrightarrow> (xs @ [a] = ys @ [b1, b2, c]) = False"
  "a \<noteq> c \<Longrightarrow> (ys @ [b1, b2, c] = xs @ [a]) = False"
  "a \<noteq> c \<Longrightarrow> (xs @ [a] = ys @ [b1, b2, b3, c]) = False"
  "a \<noteq> c \<Longrightarrow> (ys @ [b1, b2, b3, c] = xs @ [a]) = False"
  "(butlast d = d @ [a]) = False"
  "(d @ [a] = butlast d) = False"
  using snoc_neq2[of a c xs ys b] snoc_neq3[of a c xs ys b1 b2] snoc_neq4[of a c xs ys b1 b2 b3]
    butlast_neq_snoc[of d a]
  by metis+


lemma file_events_simps [simp]:
  "file_events [] = []"
  "file_events (Print s m # evs) = file_events evs"
  "file_events (Traceback x # evs) = file_events evs"
  "file_events (Chdir p # evs) = Chdir p # file_events evs"
  "file_events (Read p # evs) = Read p # file_events evs"
  "file_events (Write p # evs) = Write p # file_events evs"
  "file_events (Remove p # evs) = Remove p # file_events evs"
  "file_events (Mkdir p # evs) = Mkdir p # file_events evs"
  "file_events (xs @ ys) = file_events xs @ file_events ys"
  by (simp_all add: file_events_def is_print_def)

lemma create_ok:
  "create_extraction_script w = (Inr u, w') \<Longrightarrow>
     w' = w\<lparr>fs := (fs w)(cwd w @ [''extract_lut.js''] \<mapsto> File (utf8_encode js_script)),
            trace := trace w @ [Write (cwd w @ [''extract_lut.js''])]\<rparr>"
  by (simp add: create_extraction_script_def open_write_def resolve_snippet Let_def fs_write_def
        split: sum.splits option.splits entry.splits)

lemma create_fail: "create_extraction_script w = (Inl x, w') \<Longrightarrow> w' = w"
  by (simp add: create_extraction_script_def open_write_def Let_def split: sum.splits)

lemma size_normalizer_Inr:
  "size_normalizer lut p = (Inr buf, p') \<Longrightarrow>
     expectedSize \<le> length lut \<and> buf = drop (length lut - expectedSize) lut \<and> length buf = expectedSize"
  by (simp add: size_normalizer_def Let_def split: if_splits) fastforce+

lemma size_normalizer_Inl:
  "size_normalizer lut p = (Inl code, p') \<Longrightarrow> code = 1 \<and> length lut < expectedSize"
  by (simp add: size_normalizer_def Let_def split: if_splits)

lemma decompress_lut_Inl: "decompress_lut e w = Inl (code, p) \<Longrightarrow> code = 1"
  by (simp add: decompress_lut_def Let_def split: sum.splits option.splits if_splits)

lemma decompress_lut_read:
  "decompress_lut e w = Inr (lut, p) \<Longrightarrow> \<exists>code. fs_read (fs w) (resolve (cwd w) mixbox_rel) = Inr code"
  by (simp add: decompress_lut_def Let_def split: sum.splits option.splits if_splits)

lemma decompress_lut_cong:
  "cwd w1 = cwd w2 \<Longrightarrow> fs w1 (resolve (cwd w1) mixbox_rel) = fs w2 (resolve (cwd w1) mixbox_rel) \<Longrightarrow>
     decompress_lut e w1 = decompress_lut e w2"
  by (simp add: decompress_lut_def fs_read_def)


lemma note_read_simps [simp]:
  "fs (note_read p w) = fs w" "cwd (note_read p w) = cwd w"
  by (simp_all add: note_read_def split: sum.splits)

lemma note_read_trace:
  "trace (note_read p w) = trace w \<or> trace (note_read p w) = trace w @ [Read p]"
  by (simp add: note_read_def split: sum.splits)

lemma note_read_ok: "fs_read (fs w) p = Inr d \<Longrightarrow> trace (note_read p w) = trace w @ [Read p]"
  by (simp add: note_read_def)

lemma fs_write_Inr:
  "fs_write f p d = Inr f' \<Longrightarrow> f' = f(p \<mapsto> File d) \<and> f (butlast p) = Some Dir \<and> f p \<noteq> Some Dir"
  by (simp add: fs_write_def split: option.splits entry.splits)

lemma js_success:
  assumes "extract_lut_js e w = (r, w')" "returncode r = 0"
  shows "\<exists>lut p. decompress_lut e w = Inr (lut, p) \<and> expectedSize \<le> length lut \<and>
           fs w' = (fs w)(cwd w @ [''mixbox_lut_raw.bin''] \<mapsto> File (drop (length lut - expectedSize) lut)) \<and>
           cwd w' = cwd w \<and>
           trace w' = trace w @ [Read (resolve (cwd w) mixbox_rel), Write (cwd w @ [''mixbox_lut_raw.bin''])]"
proof (cases "decompress_lut e w")
  case (Inl a)
  obtain code p where a: "a = (code, p)" by (cases a)
  have "code = 1" using Inl a decompress_lut_Inl by blast
  then show ?thesis using assms Inl a by (auto simp add: extract_lut_js_def js_exit_def Let_def)
next
  case (Inr b)
  obtain lut p3 where b: "b = (lut, p3)" by (cases b)
  obtain code where rd: "fs_read (fs w) (resolve (cwd w) mixbox_rel) = Inr code"
    using Inr b decompress_lut_read by blast
  obtain res p4 where sn: "size_normalizer lut p3 = (res, p4)" by (cases "size_normalizer lut p3")
  show ?thesis
  proof (cases res)
    case (Inl c)
    then have "c = 1" using sn size_normalizer_Inl by blast
    then show ?thesis using assms Inr b sn Inl by (auto simp add: extract_lut_js_def js_exit_def Let_def)
  next
    case (Inr buf)
    note buf = size_normalizer_Inr[OF sn[unfolded Inr]]
    show ?thesis
    proof (cases "fs_write (fs w) (cwd w @ [''mixbox_lut_raw.bin'']) buf")
      case (Inl err)
      then show ?thesis using assms \<open>decompress_lut e w = Inr b\<close> b sn Inr
        by (auto simp add: extract_lut_js_def js_exit_def Let_def resolve_raw)
    next
      case (Inr f')
      then have f': "f' = (fs w)(cwd w @ [''mixbox_lut_raw.bin''] \<mapsto> File buf)"
        using fs_write_Inr by blast
      have "w' = (note_read (resolve (cwd w) mixbox_rel) w)\<lparr>fs := f',
               trace := trace (note_read (resolve (cwd w) mixbox_rel) w) @ [Write (cwd w @ [''mixbox_lut_raw.bin''])]\<rparr>"
        using assms(1) \<open>decompress_lut e w = Inr b\<close> b sn \<open>res = Inr buf\<close> Inr
        by (auto simp add: extract_lut_js_def js_exit_def Let_def resolve_raw)
      then show ?thesis
        using \<open>decompress_lut e w = Inr b\<close> b buf f' note_read_ok[OF rd] by simp
    qed
  qed
qed

lemma js_failure:
  assumes "extract_lut_js e w = (r, w')" "returncode r \<noteq> 0"
  shows "fs w' = fs w \<and> cwd w' = cwd w \<and>
         (trace w' = trace w \<or> trace w' = trace w @ [Read (resolve (cwd w) mixbox_rel)])"
proof -
  have "w' = note_read (resolve (cwd w) mixbox_rel) w"
    using assms
    by (auto simp add: extract_lut_js_def js_exit_def Let_def split: sum.splits prod.splits)
  then show ?thesis using note_read_trace[of "resolve (cwd w) mixbox_rel" w] by simp
qed


lemma run_extraction_cases:
  fixes e w
  defines "w1 \<equiv> print ''Running Node.js extraction script...'' w"
  shows "(\<not> node_installed e \<and>
            run_extraction e w = (Inr False,
              eprint ''Error: Node.js not found. Please install Node.js to run this script.'' w1)) \<or>
         (node_installed e \<and> returncode (fst (extract_lut_js e w1)) \<noteq> 0 \<and>
            run_extraction e w = (Inr False,
              eprint (''stderr: '' @ stderr (fst (extract_lut_js e w1)))
                (eprint (''stdout: '' @ stdout (fst (extract_lut_js e w1)))
                  (eprint (''Error running extraction script: '' @
                      str_exn (CalledProcessError (returncode (fst (extract_lut_js e w1)))
                         (stdout (fst (extract_lut_js e w1))) (stderr (fst (extract_lut_js e w1)))))
                    (snd (extract_lut_js e w1)))))) \<or>
         (node_installed e \<and> returncode (fst (extract_lut_js e w1)) = 0 \<and>
            run_extraction e w = (Inr True,
              (if stderr (fst (extract_lut_js e w1)) \<noteq> []
               then eprint (''Warnings: '' @ stderr (fst (extract_lut_js e w1)))
                      (print (stdout (fst (extract_lut_js e w1))) (snd (extract_lut_js e w1)))
               else print (stdout (fst (extract_lut_js e w1))) (snd (extract_lut_js e w1)))))"
  unfolding w1_def
  by (cases "extract_lut_js e (print ''Running Node.js extraction script...'' w)")
     (simp add: run_extraction_def subprocess_run_def Let_def)


lemma run_extraction_total: "\<exists>b. fst (run_extraction e w) = Inr b"
  using run_extraction_cases[of e w] by (metis fst_conv)

lemma run_false:
  assumes "run_extraction e w = (Inr False, w')"
  shows "fs w' = fs w \<and> cwd w' = cwd w \<and>
         (\<exists>evs. trace w' = trace w @ evs \<and>
            (file_events evs = [] \<or> file_events evs = [Read (resolve (cwd w) mixbox_rel)]) \<and>
            (\<exists>m. Print Stderr m \<in> set evs)) \<and>
         (\<not> node_installed e \<or>
          returncode (fst (extract_lut_js e (print ''Running Node.js extraction script...'' w))) \<noteq> 0)"
proof -
  define w1 where "w1 = print ''Running Node.js extraction script...'' w"
  define r where "r = fst (extract_lut_js e w1)"
  define w2 where "w2 = snd (extract_lut_js e w1)"
  have js: "extract_lut_js e w1 = (r, w2)" by (simp add: r_def w2_def)
  consider (nonode) "\<not> node_installed e"
      "w' = eprint ''Error: Node.js not found. Please install Node.js to run this script.'' w1"
    | (failed) "returncode r \<noteq> 0"
      "w' = eprint (''stderr: '' @ stderr r) (eprint (''stdout: '' @ stdout r)
              (eprint (''Error running extraction script: '' @
                  str_exn (CalledProcessError (returncode r) (stdout r) (stderr r))) w2))"
    using run_extraction_cases[of e w] assms unfolding w1_def r_def w2_def by auto
  then show ?thesis
  proof cases
    case nonode
    have "trace w' = trace w @ [Print Stdout ''Running Node.js extraction script...'',
        Print Stderr ''Error: Node.js not found. Please install Node.js to run this script.'']"
      using nonode(2) by (simp add: w1_def)
    moreover have "file_events [Print Stdout ''Running Node.js extraction script...'',
        Print Stderr ''Error: Node.js not found. Please install Node.js to run this script.''] = []"
      by simp
    moreover have "Print Stderr ''Error: Node.js not found. Please install Node.js to run this script.''
        \<in> set [Print Stdout ''Running Node.js extraction script...'',
        Print Stderr ''Error: Node.js not found. Please install Node.js to run this script.'']"
      by simp
    ultimately have "\<exists>evs. trace w' = trace w @ evs \<and>
            (file_events evs = [] \<or> file_events evs = [Read (resolve (cwd w) mixbox_rel)]) \<and>
            (\<exists>m. Print Stderr m \<in> set evs)"
      by blast
    then show ?thesis using nonode by (simp add: w1_def)
  next
    case failed
    note f = js_failure[OF js failed(1)]
    let ?tail = "[Print Stderr (''Error running extraction script: '' @
                  str_exn (CalledProcessError (returncode r) (stdout r) (stderr r))),
                 Print Stderr (''stdout: '' @ stdout r), Print Stderr (''stderr: '' @ stderr r)]"
    from f have "trace w2 = trace w1 \<or> trace w2 = trace w1 @ [Read (resolve (cwd w) mixbox_rel)]"
      by (simp add: w1_def)
    then have "\<exists>evs. trace w' = trace w @ evs \<and>
            (file_events evs = [] \<or> file_events evs = [Read (resolve (cwd w) mixbox_rel)]) \<and>
            (\<exists>m. Print Stderr m \<in> set evs)"
    proof
      assume "trace w2 = trace w1"
      then have tr: "trace w' = trace w @ (Print Stdout ''Running Node.js extraction script...'' # ?tail)"
        using failed(2) by (simp add: w1_def)
      have fe: "file_events (Print Stdout ''Running Node.js extraction script...'' # ?tail) = []"
        by simp
      have pe: "Print Stderr (''stderr: '' @ stderr r) \<in>
                  set (Print Stdout ''Running Node.js extraction script...'' # ?tail)"
        by simp
      from tr fe pe show ?thesis by blast
    next
      assume "trace w2 = trace w1 @ [Read (resolve (cwd w) mixbox_rel)]"
      then have tr: "trace w' = trace w @ (Print Stdout ''Running Node.js extraction script...'' #
                    Read (resolve (cwd w) mixbox_rel) # ?tail)"
        using failed(2) by (simp add: w1_def)
      have fe: "file_events (Print Stdout ''Running Node.js extraction script...'' #
                    Read (resolve (cwd w) mixbox_rel) # ?tail) = [Read (resolve (cwd w) mixbox_rel)]"
        by simp
      have pe: "Print Stderr (''stderr: '' @ stderr r) \<in>
                  set (Print Stdout ''Running Node.js extraction script...'' #
                    Read (resolve (cwd w) mixbox_rel) # ?tail)"
        by simp
      from tr fe pe show ?thesis by blast
    qed
    moreover have "fs w' = fs w" "cwd w' = cwd w"
      using f failed(2) by (simp_all add: w1_def)
    ultimately show ?thesis using failed(1) by (simp add: r_def w1_def)
  qed
qed

lemma run_true:
  assumes "run_extraction e w = (Inr True, w')"
  shows "node_installed e \<and> cwd w' = cwd w \<and>
         (\<exists>lut p. decompress_lut e w = Inr (lut, p) \<and> expectedSize \<le> length lut \<and>
            fs w' = (fs w)(cwd w @ [''mixbox_lut_raw.bin''] \<mapsto>
                       File (drop (length lut - expectedSize) lut))) \<and>
         (\<exists>evs. trace w' = trace w @ evs \<and>
            file_events evs = [Read (resolve (cwd w) mixbox_rel), Write (cwd w @ [''mixbox_lut_raw.bin''])])"
proof -
  define w1 where "w1 = print ''Running Node.js extraction script...'' w"
  define r where "r = fst (extract_lut_js e w1)"
  define w2 where "w2 = snd (extract_lut_js e w1)"
  have js: "extract_lut_js e w1 = (r, w2)" by (simp add: r_def w2_def)
  have ok: "node_installed e" "returncode r = 0"
    and w': "w' = (if stderr r \<noteq> [] then eprint (''Warnings: '' @ stderr r) (print (stdout r) w2)
                  else print (stdout r) w2)"
    using run_extraction_cases[of e w] assms unfolding w1_def r_def w2_def by auto
  from js_success[OF js ok(2)] obtain lut p where
    d: "decompress_lut e w1 = Inr (lut, p)" and len: "expectedSize \<le> length lut"
    and f: "fs w2 = (fs w1)(cwd w1 @ [''mixbox_lut_raw.bin''] \<mapsto> File (drop (length lut - expectedSize) lut))"
    and c: "cwd w2 = cwd w1"
    and t: "trace w2 = trace w1 @ [Read (resolve (cwd w1) mixbox_rel), Write (cwd w1 @ [''mixbox_lut_raw.bin''])]"
    by blast
  have d': "decompress_lut e w = Inr (lut, p)"
    using d decompress_lut_cong[of w1 w e] by (simp add: w1_def)
  have "\<exists>evs. trace w' = trace w @ evs \<and>
            file_events evs = [Read (resolve (cwd w) mixbox_rel), Write (cwd w @ [''mixbox_lut_raw.bin''])]"
  proof (cases "stderr r \<noteq> []")
    case True
    let ?evs = "[Print Stdout ''Running Node.js extraction script...'',
        Read (resolve (cwd w) mixbox_rel), Write (cwd w @ [''mixbox_lut_raw.bin'']),
        Print Stdout (stdout r), Print Stderr (''Warnings: '' @ stderr r)]"
    have tr: "trace w' = trace w @ ?evs"
      using True w' t by (simp add: w1_def)
    have fe: "file_events ?evs = [Read (resolve (cwd w) mixbox_rel), Write (cwd w @ [''mixbox_lut_raw.bin''])]"
      by simp
    from tr fe show ?thesis by blast
  next
    case False
    let ?evs = "[Print Stdout ''Running Node.js extraction script...'',
        Read (resolve (cwd w) mixbox_rel), Write (cwd w @ [''mixbox_lut_raw.bin'']),
        Print Stdout (stdout r)]"
    have tr: "trace w' = trace w @ ?evs"
      using False w' t by (simp add: w1_def)
    have fe: "file_events ?evs = [Read (resolve (cwd w) mixbox_rel), Write (cwd w @ [''mixbox_lut_raw.bin''])]"
      by simp
    from tr fe show ?thesis by blast
  qed
  moreover have "fs w' = (fs w)(cwd w @ [''mixbox_lut_raw.bin''] \<mapsto> File (drop (length lut - expectedSize) lut))"
    using w' f by (simp add: w1_def)
  moreover have "cwd w' = cwd w" using w' c by (simp add: w1_def)
  ultimately show ?thesis using ok(1) d' len by blast
qed

lemma fs_mkdir_Inr: "fs_mkdir f p = Inr f' \<Longrightarrow> f' = f(p \<mapsto> Dir) \<and> f p = None \<and> f (butlast p) = Some Dir"
  by (simp add: fs_mkdir_def split: option.splits entry.splits)

lemma makedirs_last:
  assumes "makedirs_from d seen [c] w = (r, w')" "c \<noteq> ''..''" "c \<noteq> ''.''"
  shows "cwd w' = cwd w \<and> (\<forall>p. p \<noteq> d @ [c] \<longrightarrow> fs w' p = fs w p) \<and>
         (r = Inr () \<longrightarrow> fs w' (d @ [c]) = Some Dir \<and>
            trace w' = trace w @ (if fs w (d @ [c]) = None then [Mkdir (d @ [c])] else [])) \<and>
         (r \<noteq> Inr () \<longrightarrow> w' = w)"
  using assms
  by (auto simp add: walk_def Let_def dest!: fs_mkdir_Inr split: option.splits entry.splits sum.splits)


lemma makedirs_two:
  assumes m: "makedirs_from b seen [c1, c2] w = (r, w')"
    and c: "c1 \<noteq> ''..''" "c1 \<noteq> ''.''" "c2 \<noteq> ''..''" "c2 \<noteq> ''.''"
  shows "cwd w' = cwd w \<and>
         (\<forall>p. p \<noteq> b @ [c1] \<and> p \<noteq> b @ [c1, c2] \<longrightarrow> fs w' p = fs w p) \<and>
         (r = Inr () \<longrightarrow> fs w' (b @ [c1]) = Some Dir \<and> fs w' (b @ [c1, c2]) = Some Dir \<and>
            trace w' = trace w @ (if fs w (b @ [c1]) = None then [Mkdir (b @ [c1])] else []) @
                                 (if fs w (b @ [c1, c2]) = None then [Mkdir (b @ [c1, c2])] else [])) \<and>
         (r \<noteq> Inr () \<longrightarrow> trace w' = trace w \<or> trace w' = trace w @ [Mkdir (b @ [c1])])"
proof (cases "fs w (b @ [c1])")
  case None
  show ?thesis
  proof (cases "fs_mkdir (fs w) (b @ [c1])")
    case (Inl err)
    then have "w' = w" "r \<noteq> Inr ()" using m c None by (auto simp add: walk_def Let_def)
    then show ?thesis by simp
  next
    case (Inr f')
    note f' = fs_mkdir_Inr[OF Inr]
    define w1 where "w1 = w\<lparr>fs := f', trace := trace w @ [Mkdir (b @ [c1])]\<rparr>"
    have step: "makedirs_from (b @ [c1]) (seen @ [c1]) [c2] w1 = (r, w')"
      using m c None Inr by (simp add: walk_def Let_def w1_def)
    note l = makedirs_last[OF step c(3,4)]
    have a1: "fs w1 (b @ [c1]) = Some Dir" using f' by (simp add: w1_def)
    have a2: "fs w1 ((b @ [c1]) @ [c2]) = fs w (b @ [c1, c2])" using f' by (simp add: w1_def)
    have a3: "\<And>p. p \<noteq> b @ [c1] \<Longrightarrow> fs w1 p = fs w p" using f' by (simp add: w1_def)
    have a4: "trace w1 = trace w @ [Mkdir (b @ [c1])]" "cwd w1 = cwd w" by (simp_all add: w1_def)
    have k: "fs w' (b @ [c1]) = Some Dir" using l a1 by simp
    show ?thesis
    proof (cases "r = Inr ()")
      case True
      then show ?thesis using l a2 a3 a4 k None by simp
    next
      case False
      then have "w' = w1" using l by simp
      then show ?thesis using False a3 a4 by simp
    qed
  qed
next
  case (Some en)
  show ?thesis
  proof (cases en)
    case Dir
    have step: "makedirs_from (b @ [c1]) (seen @ [c1]) [c2] w = (r, w')"
      using m c Some Dir by (simp add: walk_def Let_def)
    note l = makedirs_last[OF step c(3,4)]
    have k: "fs w' (b @ [c1]) = Some Dir" using l Some Dir by simp
    show ?thesis
    proof (cases "r = Inr ()")
      case True
      then show ?thesis using l k Some by simp
    next
      case False
      then have "w' = w" using l by simp
      then show ?thesis using False by simp
    qed
  next
    case (File x)
    then have "w' = w" "r \<noteq> Inr ()" using m c Some by (auto simp add: walk_def Let_def)
    then show ?thesis by simp
  qed
qed

lemma makedirs_dotdot:
  "makedirs_from d seen (''..'' # cs) w = makedirs_from (butlast d) (seen @ [''..'']) cs w"
  by (simp add: walk_def Let_def)

lemma os_makedirs_output:
  assumes "os_makedirs (os_path_dirname output_path) w = (r, w')"
  shows "cwd w' = cwd w \<and>
         (\<forall>p. p \<noteq> butlast (cwd w) @ [''lib''] \<and> p \<noteq> butlast (cwd w) @ [''lib'', ''utils'']
              \<longrightarrow> fs w' p = fs w p) \<and>
         (r = Inr () \<longrightarrow> fs w' (butlast (cwd w) @ [''lib'']) = Some Dir \<and>
            fs w' (butlast (cwd w) @ [''lib'', ''utils'']) = Some Dir \<and>
            trace w' = trace w @
              (if fs w (butlast (cwd w) @ [''lib'']) = None then [Mkdir (butlast (cwd w) @ [''lib''])] else []) @
              (if fs w (butlast (cwd w) @ [''lib'', ''utils'']) = None
               then [Mkdir (butlast (cwd w) @ [''lib'', ''utils''])] else [])) \<and>
         (r \<noteq> Inr () \<longrightarrow> trace w' = trace w \<or> trace w' = trace w @ [Mkdir (butlast (cwd w) @ [''lib''])])"
proof -
  have n: "os_path_dirname output_path = [''..'', ''lib'', ''utils'']"
    by (simp add: os_path_dirname_def output_path_def)
  have "makedirs_from (butlast (cwd w)) ([] @ [''..'']) [''lib'', ''utils''] w = (r, w')"
    using assms unfolding os_makedirs_def n makedirs_dotdot .
  from makedirs_two[OF this] show ?thesis by simp
qed


lemma fs_read_Inr: "fs_read f p = Inr d \<longleftrightarrow> f p = Some (File d)"
  by (simp add: fs_read_def split: option.splits entry.splits)

lemma convert_ok:
  assumes "convert_to_dart w = (Inr u, w')"
  shows "\<exists>buf. fs w (cwd w @ [''mixbox_lut_raw.bin'']) = Some (File buf) \<and> cwd w' = cwd w \<and>
           fs w' (resolve (cwd w) output_path) = Some (File (utf8_encode (dart_code_of buf))) \<and>
           fs w' (butlast (cwd w) @ [''lib'']) = Some Dir \<and>
           fs w' (butlast (cwd w) @ [''lib'', ''utils'']) = Some Dir \<and>
           (\<forall>p. p \<noteq> butlast (cwd w) @ [''lib''] \<and> p \<noteq> butlast (cwd w) @ [''lib'', ''utils''] \<and>
                p \<noteq> resolve (cwd w) output_path \<longrightarrow> fs w' p = fs w p) \<and>
           (\<exists>evs. trace w' = trace w @ evs \<and>
              file_events evs = Read (cwd w @ [''mixbox_lut_raw.bin'']) #
                (if fs w (butlast (cwd w) @ [''lib'']) = None
                 then [Mkdir (butlast (cwd w) @ [''lib''])] else []) @
                (if fs w (butlast (cwd w) @ [''lib'', ''utils'']) = None
                 then [Mkdir (butlast (cwd w) @ [''lib'', ''utils''])] else []) @
                [Write (resolve (cwd w) output_path)])"
proof -
  define w1 where "w1 = print ''Converting to Dart format...'' w"
  define raw where "raw = cwd w @ [''mixbox_lut_raw.bin'']"
  define out where "out = resolve (cwd w) output_path"
  obtain buf where rd: "fs_read (fs w) raw = Inr buf"
    using assms
    by (cases "fs_read (fs w) raw")
       (simp_all add: convert_to_dart_def open_read_def Let_def resolve_raw raw_def)
  define w3 where "w3 = print (''Read '' @ str (length buf) @ '' bytes'')
                          (w1\<lparr>trace := trace w1 @ [Read raw]\<rparr>)"
  obtain r4 w4 where mk: "os_makedirs (os_path_dirname output_path) w3 = (r4, w4)"
    by (cases "os_makedirs (os_path_dirname output_path) w3")
  obtain r5 w5 where ow: "open_write output_path (utf8_encode (dart_code_of buf)) w4 = (r5, w5)"
    by (cases "open_write output_path (utf8_encode (dart_code_of buf)) w4")
  have c1: "r4 = Inr () \<and> r5 = Inr () \<and>
            w' = print (''File size: '' @ str (length (dart_code_of buf)) @ '' bytes'')
                   (print (''Generated '' @ os_path_join output_path) w5)"
    using assms rd mk ow
    by (cases r4; cases r5)
       (simp_all add: convert_to_dart_def open_read_def Let_def resolve_raw raw_def w1_def w3_def)
  then have r4: "r4 = Inr ()" by simp
  note m = os_makedirs_output[OF mk]
  have cw4: "cwd w4 = cwd w" using m by (simp add: w3_def w1_def)
  obtain f' where wr: "fs_write (fs w4) out (utf8_encode (dart_code_of buf)) = Inr f'"
    and w5: "w5 = w4\<lparr>fs := f', trace := trace w4 @ [Write out]\<rparr>"
    using ow c1
    by (cases "fs_write (fs w4) out (utf8_encode (dart_code_of buf))")
       (simp_all add: open_write_def Let_def cw4 out_def)
  have w': "w' = print (''File size: '' @ str (length (dart_code_of buf)) @ '' bytes'')
                  (print (''Generated '' @ os_path_join output_path)
                     (w4\<lparr>fs := f', trace := trace w4 @ [Write out]\<rparr>))"
    using c1 w5 by simp
  have f': "f' = (fs w4)(out \<mapsto> File (utf8_encode (dart_code_of buf)))"
    using fs_write_Inr[OF wr] by simp
  have fs3: "fs w3 = fs w" "cwd w3 = cwd w" by (simp_all add: w3_def w1_def)
  have outne: "out \<noteq> butlast (cwd w) @ [''lib'']" "out \<noteq> butlast (cwd w) @ [''lib'', ''utils'']"
    by (simp_all add: out_def resolve_output)
  have t4: "trace w4 = trace w3 @
      (if fs w (butlast (cwd w) @ [''lib'']) = None then [Mkdir (butlast (cwd w) @ [''lib''])] else []) @
      (if fs w (butlast (cwd w) @ [''lib'', ''utils'']) = None
       then [Mkdir (butlast (cwd w) @ [''lib'', ''utils''])] else [])"
    using m r4 fs3 by simp
  have t3: "trace w3 = trace w @ [Print Stdout ''Converting to Dart format...'', Read raw,
      Print Stdout (''Read '' @ str (length buf) @ '' bytes'')]"
    by (simp add: w3_def w1_def)
  let ?mk = "(if fs w (butlast (cwd w) @ [''lib'']) = None then [Mkdir (butlast (cwd w) @ [''lib''])] else []) @
      (if fs w (butlast (cwd w) @ [''lib'', ''utils'']) = None
       then [Mkdir (butlast (cwd w) @ [''lib'', ''utils''])] else [])"
  let ?evs = "[Print Stdout ''Converting to Dart format...'', Read raw,
      Print Stdout (''Read '' @ str (length buf) @ '' bytes'')] @ ?mk @
      [Write out, Print Stdout (''Generated '' @ os_path_join output_path),
       Print Stdout (''File size: '' @ str (length (dart_code_of buf)) @ '' bytes'')]"
  have tr: "trace w' = trace w @ ?evs"
    unfolding w' by (simp add: t4 t3)
  let ?A = "if fs w (butlast (cwd w) @ [''lib'']) = None then [Mkdir (butlast (cwd w) @ [''lib''])] else []"
  let ?B = "if fs w (butlast (cwd w) @ [''lib'', ''utils'']) = None
       then [Mkdir (butlast (cwd w) @ [''lib'', ''utils''])] else []"
  have fe: "file_events ?evs = Read raw # ?A @ ?B @ [Write out]"
    by simp
  have ex: "\<exists>evs. trace w' = trace w @ evs \<and> file_events evs = Read raw # ?A @ ?B @ [Write out]"
    using tr fe by blast
  have a: "fs w raw = Some (File buf)" using rd by (simp add: fs_read_Inr)
  have b: "fs w' out = Some (File (utf8_encode (dart_code_of buf)))" by (simp add: w' f')
  have c: "fs w' (butlast (cwd w) @ [''lib'']) = Some Dir"
          "fs w' (butlast (cwd w) @ [''lib'', ''utils'']) = Some Dir"
    using m r4 outne fs3 by (simp_all add: w' f')
  have d: "\<forall>p. p \<noteq> butlast (cwd w) @ [''lib''] \<and> p \<noteq> butlast (cwd w) @ [''lib'', ''utils''] \<and>
                p \<noteq> out \<longrightarrow> fs w' p = fs w p"
    using m fs3 by (simp add: w' f')
  have e: "cwd w' = cwd w" by (simp add: w' cw4)
  show ?thesis
    using a b c d e ex unfolding raw_def out_def
    by - (intro exI[of _ buf] conjI, assumption+)
qed

lemma cleanup_ok:
  assumes "fs w (cwd w @ [''extract_lut.js'']) = Some (File a)"
    and "fs w (cwd w @ [''mixbox_lut_raw.bin'']) = Some (File b)"
  shows "cleanup w = (Inr (),
           w\<lparr>fs := (fs w)(cwd w @ [''extract_lut.js''] := None, cwd w @ [''mixbox_lut_raw.bin''] := None),
              trace := trace w @ [Remove (cwd w @ [''extract_lut.js'']),
                 Print Stdout (''Cleaned up '' @ ''extract_lut.js''),
                 Remove (cwd w @ [''mixbox_lut_raw.bin'']),
                 Print Stdout (''Cleaned up '' @ ''mixbox_lut_raw.bin'')]\<rparr>)"
  using assms
  by (simp add: cleanup_def os_path_exists_def os_remove_def fs_remove_def resolve_snippet
        resolve_raw Let_def print_def)

lemma convert_fail:
  assumes "convert_to_dart w = (Inl x, w')"
  shows "cwd w' = cwd w \<and>
         (\<forall>p. p \<noteq> butlast (cwd w) @ [''lib''] \<and> p \<noteq> butlast (cwd w) @ [''lib'', ''utils'']
              \<longrightarrow> fs w' p = fs w p) \<and>
         (\<exists>evs. trace w' = trace w @ evs \<and>
            set (file_events evs) \<subseteq> {Read (cwd w @ [''mixbox_lut_raw.bin'']),
               Mkdir (butlast (cwd w) @ [''lib'']), Mkdir (butlast (cwd w) @ [''lib'', ''utils''])})"
proof -
  define w1 where "w1 = print ''Converting to Dart format...'' w"
  define raw where "raw = cwd w @ [''mixbox_lut_raw.bin'']"
  define out where "out = resolve (cwd w) output_path"
  let ?S = "{Read raw, Mkdir (butlast (cwd w) @ [''lib'']), Mkdir (butlast (cwd w) @ [''lib'', ''utils''])}"
  show ?thesis
  proof (cases "fs_read (fs w) raw")
    case (Inl err)
    then have w': "w' = w1"
      using assms
      by (simp add: convert_to_dart_def open_read_def Let_def resolve_raw raw_def w1_def)
    have tr: "trace w' = trace w @ [Print Stdout ''Converting to Dart format...'']"
      by (simp add: w' w1_def)
    have fe: "set (file_events [Print Stdout ''Converting to Dart format...'']) \<subseteq> ?S" by simp
    have ex: "\<exists>evs. trace w' = trace w @ evs \<and> set (file_events evs) \<subseteq> ?S"
      using tr fe by blast
    have "cwd w' = cwd w" "\<forall>p. fs w' p = fs w p" by (simp_all add: w' w1_def)
    then show ?thesis using ex unfolding raw_def by simp
  next
    case (Inr buf)
    define w3 where "w3 = print (''Read '' @ str (length buf) @ '' bytes'')
                          (w1\<lparr>trace := trace w1 @ [Read raw]\<rparr>)"
    obtain r4 w4 where mk: "os_makedirs (os_path_dirname output_path) w3 = (r4, w4)"
      by (cases "os_makedirs (os_path_dirname output_path) w3")
    obtain r5 w5 where ow: "open_write output_path (utf8_encode (dart_code_of buf)) w4 = (r5, w5)"
      by (cases "open_write output_path (utf8_encode (dart_code_of buf)) w4")
    note m = os_makedirs_output[OF mk]
    have cw4: "cwd w4 = cwd w" using m by (simp add: w3_def w1_def)
    have t3: "trace w3 = trace w @ [Print Stdout ''Converting to Dart format...'', Read raw,
        Print Stdout (''Read '' @ str (length buf) @ '' bytes'')]"
      by (simp add: w3_def w1_def)
    have fs3: "fs w3 = fs w" "cwd w3 = cwd w" by (simp_all add: w3_def w1_def)
    have w': "w' = w4"
    proof (cases r4)
      case (Inl y)
      then show ?thesis using assms Inr mk
        by (simp add: convert_to_dart_def open_read_def Let_def resolve_raw raw_def w1_def w3_def)
    next
      case r4: (Inr v)
      have "r5 = Inl x \<and> w' = w5"
        using assms Inr mk ow r4
        by (cases r5)
           (simp_all add: convert_to_dart_def open_read_def Let_def resolve_raw raw_def w1_def w3_def)
      then show ?thesis using ow
        by (cases "fs_write (fs w4) (resolve (cwd w4) output_path) (utf8_encode (dart_code_of buf))")
           (simp_all add: open_write_def Let_def)
    qed
    let ?A = "[Mkdir (butlast (cwd w) @ [''lib''])]"
    let ?B = "[Mkdir (butlast (cwd w) @ [''lib'', ''utils''])]"
    have "trace w4 = trace w3 \<or> trace w4 = trace w3 @ ?A \<or> trace w4 = trace w3 @ ?B
          \<or> trace w4 = trace w3 @ ?A @ ?B"
      using m fs3 by (cases "r4 = Inr ()") (simp_all split: if_splits, blast)
    then have "\<exists>mk. trace w4 = trace w3 @ mk \<and> set mk \<subseteq> ?S \<and> file_events mk = mk"
    proof (elim disjE)
      assume "trace w4 = trace w3"
      then have "trace w4 = trace w3 @ [] \<and> set [] \<subseteq> ?S \<and> file_events [] = []" by simp
      then show ?thesis by (rule exI)
    next
      assume "trace w4 = trace w3 @ ?A"
      then have "trace w4 = trace w3 @ ?A \<and> set ?A \<subseteq> ?S \<and> file_events ?A = ?A" by simp
      then show ?thesis by (rule exI)
    next
      assume "trace w4 = trace w3 @ ?B"
      then have "trace w4 = trace w3 @ ?B \<and> set ?B \<subseteq> ?S \<and> file_events ?B = ?B" by simp
      then show ?thesis by (rule exI)
    next
      assume "trace w4 = trace w3 @ ?A @ ?B"
      then have "trace w4 = trace w3 @ (?A @ ?B) \<and> set (?A @ ?B) \<subseteq> ?S \<and> file_events (?A @ ?B) = ?A @ ?B"
        by simp
      then show ?thesis by (rule exI)
    qed
    then obtain mk where k: "trace w4 = trace w3 @ mk" "set mk \<subseteq> ?S" "file_events mk = mk"
      by (elim exE conjE)
    let ?evs = "[Print Stdout ''Converting to Dart format...'', Read raw,
        Print Stdout (''Read '' @ str (length buf) @ '' bytes'')] @ mk"
    have tr: "trace w' = trace w @ ?evs" by (simp add: w' k(1) t3)
    have fe: "set (file_events ?evs) \<subseteq> ?S" using k(2,3) by simp
    have ex: "\<exists>evs. trace w' = trace w @ evs \<and> set (file_events evs) \<subseteq> ?S"
      using tr fe by (intro exI[of _ ?evs] conjI)
    have "cwd w' = cwd w" by (simp add: w' cw4)
    moreover have "\<forall>p. p \<noteq> butlast (cwd w) @ [''lib''] \<and> p \<noteq> butlast (cwd w) @ [''lib'', ''utils'']
              \<longrightarrow> fs w' p = fs w p"
      using m fs3 by (simp add: w')
    ultimately show ?thesis using ex unfolding raw_def by - (intro conjI, assumption+)
  qed
qed

lemma main_try_cases:
  fixes e w
  defines "w1 \<equiv> print ''Step 1: Creating Node.js extraction script...'' w"
  obtains
    (create_failed) x wa where
      "create_extraction_script w1 = (Inl x, wa)" "main_try e w = (Inl x, wa)"
  | (extract_failed) w2 w5 where
      "create_extraction_script w1 = (Inr (), w2)"
      "run_extraction e (print ''Step 2: Extracting LUT from mixbox.esm.js...''
          (print [] (print ''[OK] Created extract_lut.js'' w2))) = (Inr False, w5)"
      "main_try e w = (Inr 1, print ''[FAIL] Extraction failed'' w5)"
  | (convert_failed) w2 w5 x w8 where
      "create_extraction_script w1 = (Inr (), w2)"
      "run_extraction e (print ''Step 2: Extracting LUT from mixbox.esm.js...''
          (print [] (print ''[OK] Created extract_lut.js'' w2))) = (Inr True, w5)"
      "convert_to_dart (print ''Step 3: Converting to Dart format...''
          (print [] (print ''[OK] Extraction complete'' w5))) = (Inl x, w8)"
      "main_try e w = (Inl x, w8)"
  | (cleanup_failed) w2 w5 w8 x w11 where
      "create_extraction_script w1 = (Inr (), w2)"
      "run_extraction e (print ''Step 2: Extracting LUT from mixbox.esm.js...''
          (print [] (print ''[OK] Created extract_lut.js'' w2))) = (Inr True, w5)"
      "convert_to_dart (print ''Step 3: Converting to Dart format...''
          (print [] (print ''[OK] Extraction complete'' w5))) = (Inr (), w8)"
      "cleanup (print ''Step 4: Cleaning up temporary files...''
          (print [] (print ''[OK] Dart file generated'' w8))) = (Inl x, w11)"
      "main_try e w = (Inl x, w11)"
  | (success) w2 w5 w8 w11 where
      "create_extraction_script w1 = (Inr (), w2)"
      "run_extraction e (print ''Step 2: Extracting LUT from mixbox.esm.js...''
          (print [] (print ''[OK] Created extract_lut.js'' w2))) = (Inr True, w5)"
      "convert_to_dart (print ''Step 3: Converting to Dart format...''
          (print [] (print ''[OK] Extraction complete'' w5))) = (Inr (), w8)"
      "cleanup (print ''Step 4: Cleaning up temporary files...''
          (print [] (print ''[OK] Dart file generated'' w8))) = (Inr (), w11)"
      "main_try e w = (Inr 0,
         print (replicate 60 (CHR ''=''))
           (print ''Output: lib/utils/mixbox_lut_data.dart''
             (print ''SUCCESS! Mixbox LUT has been extracted and converted.''
               (print (replicate 60 (CHR ''=''))
                 (print [] (print ''[OK] Cleanup complete'' w11))))))"
proof -
  obtain r2 w2 where c: "create_extraction_script w1 = (r2, w2)"
    by (cases "create_extraction_script w1")
  show thesis
  proof (cases r2)
    case (Inl x)
    have "main_try e w = (Inl x, w2)"
      using c Inl by (simp add: main_try_def Let_def w1_def)
    then show thesis using create_failed c Inl by simp
  next
    case r2: (Inr u)
    define w4 where "w4 = print ''Step 2: Extracting LUT from mixbox.esm.js...''
          (print [] (print ''[OK] Created extract_lut.js'' w2))"
    obtain r5 w5 where r: "run_extraction e w4 = (r5, w5)" by (cases "run_extraction e w4")
    obtain ok where r5: "r5 = Inr ok" using run_extraction_total[of e w4] r by auto
    show thesis
    proof (cases ok)
      case False
      have "main_try e w = (Inr 1, print ''[FAIL] Extraction failed'' w5)"
        using c r2 r r5 False by (simp add: main_try_def Let_def w1_def w4_def)
      then show thesis using extract_failed c r2 r r5 False by (simp add: w4_def)
    next
      case True
      define w7 where "w7 = print ''Step 3: Converting to Dart format...''
          (print [] (print ''[OK] Extraction complete'' w5))"
      obtain r8 w8 where cv: "convert_to_dart w7 = (r8, w8)" by (cases "convert_to_dart w7")
      show thesis
      proof (cases r8)
        case (Inl x)
        have "main_try e w = (Inl x, w8)"
          using c r2 r r5 True cv Inl by (simp add: main_try_def Let_def w1_def w4_def w7_def)
        then show thesis using convert_failed c r2 r r5 True cv Inl by (simp add: w4_def w7_def)
      next
        case r8: (Inr u')
        define w10 where "w10 = print ''Step 4: Cleaning up temporary files...''
          (print [] (print ''[OK] Dart file generated'' w8))"
        obtain r11 w11 where cl: "cleanup w10 = (r11, w11)" by (cases "cleanup w10")
        show thesis
        proof (cases r11)
          case (Inl x)
          have "main_try e w = (Inl x, w11)"
            using c r2 r r5 True cv r8 cl Inl
            by (simp add: main_try_def Let_def w1_def w4_def w7_def w10_def)
          then show thesis using cleanup_failed c r2 r r5 True cv r8 cl Inl
            by (simp add: w4_def w7_def w10_def)
        next
          case (Inr u'')
          have "main_try e w = (Inr 0,
             print (replicate 60 (CHR ''=''))
               (print ''Output: lib/utils/mixbox_lut_data.dart''
                 (print ''SUCCESS! Mixbox LUT has been extracted and converted.''
                   (print (replicate 60 (CHR ''=''))
                     (print [] (print ''[OK] Cleanup complete'' w11))))))"
            using c r2 r r5 True cv r8 cl Inr
            by (simp add: main_try_def Let_def w1_def w4_def w7_def w10_def)
          then show thesis using success c r2 r r5 True cv r8 cl Inr
            by (simp add: w4_def w7_def w10_def)
        qed
      qed
    qed
  qed
qed


lemma main_try_outcome:
  fixes e :: env and w :: world
  defines "snip \<equiv> cwd w @ [''extract_lut.js'']"
    and "raw \<equiv> cwd w @ [''mixbox_lut_raw.bin'']"
    and "mix \<equiv> resolve (cwd w) mixbox_rel"
    and "lib \<equiv> butlast (cwd w) @ [''lib'']"
    and "utils \<equiv> butlast (cwd w) @ [''lib'', ''utils'']"
    and "out \<equiv> resolve (cwd w) output_path"
  obtains
    (create_failed) x where
      "main_try e w = (Inl x, print ''Step 1: Creating Node.js extraction script...'' w)"
  | (extract_failed) W evs where
      "main_try e w = (Inr 1, W)" "cwd W = cwd w"
      "fs W = (fs w)(snip \<mapsto> File (utf8_encode js_script))"
      "trace W = trace w @ evs"
      "file_events evs = [Write snip] \<or> file_events evs = [Write snip, Read mix]"
      "\<exists>m. Print Stderr m \<in> set evs"
  | (convert_failed) x W evs rest where
      "main_try e w = (Inl x, W)" "cwd W = cwd w"
      "fs W snip = Some (File (utf8_encode js_script))" "fs W out = fs w out"
      "trace W = trace w @ evs"
      "file_events evs = [Write snip, Read mix, Write raw] @ rest"
      "set rest \<subseteq> {Read raw, Mkdir lib, Mkdir utils}"
  | (success) W evs lut p where
      "main_try e w = (Inr 0, W)" "cwd W = cwd w" "node_installed e"
      "decompress_lut e w = Inr (lut, p)" "expectedSize \<le> length lut"
      "fs W out = Some (File (utf8_encode (dart_code_of (drop (length lut - expectedSize) lut))))"
      "fs W snip = None" "fs W raw = None" "fs W lib = Some Dir" "fs W utils = Some Dir"
      "\<forall>q. q \<noteq> snip \<and> q \<noteq> raw \<and> q \<noteq> lib \<and> q \<noteq> utils \<and> q \<noteq> out \<longrightarrow> fs W q = fs w q"
      "trace W = trace w @ evs"
      "file_events evs = [Write snip, Read mix, Write raw, Read raw] @
         (if fs w lib = None then [Mkdir lib] else []) @
         (if fs w utils = None then [Mkdir utils] else []) @
         [Write out, Remove snip, Remove raw]"
proof -
  define w1 where "w1 = print ''Step 1: Creating Node.js extraction script...'' w"
  have out_eq: "out = butlast (cwd w) @ [''lib'', ''utils'', ''mixbox_lut_data.dart'']"
    by (simp add: out_def resolve_output)
  have mix_eq: "mix = butlast (cwd w) @ [''reference-mixbox'', ''mixbox-master'', ''javascript'', ''mixbox.esm.js'']"
    by (simp add: mix_def resolve_mixbox)
  have ne: "snip \<noteq> raw" "snip \<noteq> mix" "snip \<noteq> lib" "snip \<noteq> utils" "snip \<noteq> out"
           "raw \<noteq> mix" "raw \<noteq> lib" "raw \<noteq> utils" "raw \<noteq> out"
           "out \<noteq> lib" "out \<noteq> utils" "lib \<noteq> utils"
    by (simp_all add: snip_def raw_def lib_def utils_def out_eq mix_eq)
  show thesis
  proof (cases rule: main_try_cases[where e=e and w=w])
    case (create_failed x wa)
    then have "wa = w1" using create_fail by (simp add: w1_def)
    then show thesis using create_failed(2) that(1) by (simp add: w1_def)
  next
    case (extract_failed w2 w5)
    note c = create_ok[OF extract_failed(1)]
    have w2: "fs w2 = (fs w)(snip \<mapsto> File (utf8_encode js_script))" "cwd w2 = cwd w"
      "trace w2 = trace w @ [Print Stdout ''Step 1: Creating Node.js extraction script...'', Write snip]"
      by (simp_all add: c snip_def)
    from run_false[OF extract_failed(2)] obtain evs5 where
      r: "fs w5 = fs w2" "cwd w5 = cwd w2"
         "trace w5 = trace w2 @ [Print Stdout ''[OK] Created extract_lut.js'', Print Stdout [],
              Print Stdout ''Step 2: Extracting LUT from mixbox.esm.js...''] @ evs5"
         "file_events evs5 = [] \<or> file_events evs5 = [Read mix]"
         "\<exists>m. Print Stderr m \<in> set evs5"
      by (auto simp add: w2 mix_def)
    define evs where "evs = [Print Stdout ''Step 1: Creating Node.js extraction script...'', Write snip,
        Print Stdout ''[OK] Created extract_lut.js'', Print Stdout [],
        Print Stdout ''Step 2: Extracting LUT from mixbox.esm.js...''] @ evs5 @
        [Print Stdout ''[FAIL] Extraction failed'']"
    define W where "W = print ''[FAIL] Extraction failed'' w5"
    have 1: "main_try e w = (Inr 1, W)" using extract_failed(3) by (simp add: W_def)
    have 2: "cwd W = cwd w" by (simp add: W_def r w2)
    have 3: "fs W = (fs w)(snip \<mapsto> File (utf8_encode js_script))" by (simp add: W_def r w2)
    have 4: "trace W = trace w @ evs" by (simp add: W_def r w2 evs_def)
    have 5: "file_events evs = [Write snip] \<or> file_events evs = [Write snip, Read mix]"
      using r(4) by (auto simp add: evs_def)
    have 6: "\<exists>m. Print Stderr m \<in> set evs" using r(5) by (auto simp add: evs_def)
    show thesis using that(2)[OF 1 2 3 4 5 6] .
  next
    case (convert_failed w2 w5 x w8)
    note c = create_ok[OF convert_failed(1)]
    have w2: "fs w2 = (fs w)(snip \<mapsto> File (utf8_encode js_script))" "cwd w2 = cwd w"
      "trace w2 = trace w @ [Print Stdout ''Step 1: Creating Node.js extraction script...'', Write snip]"
      by (simp_all add: c snip_def)
    from run_true[OF convert_failed(2)] obtain lut p evs5 where
      r: "cwd w5 = cwd w"
         "fs w5 = (fs w2)(raw \<mapsto> File (drop (length lut - expectedSize) lut))"
         "trace w5 = trace w2 @ [Print Stdout ''[OK] Created extract_lut.js'', Print Stdout [],
              Print Stdout ''Step 2: Extracting LUT from mixbox.esm.js...''] @ evs5"
         "file_events evs5 = [Read mix, Write raw]"
      by (auto simp add: w2 mix_def raw_def)
    from convert_fail[OF convert_failed(3)] obtain evs8 where
      v: "cwd w8 = cwd w" "\<forall>q. q \<noteq> lib \<and> q \<noteq> utils \<longrightarrow> fs w8 q = fs w5 q"
         "trace w8 = trace w5 @ [Print Stdout ''[OK] Extraction complete'', Print Stdout [],
              Print Stdout ''Step 3: Converting to Dart format...''] @ evs8"
         "set (file_events evs8) \<subseteq> {Read raw, Mkdir lib, Mkdir utils}"
      by (auto simp add: r lib_def utils_def raw_def)
    define evs where "evs = [Print Stdout ''Step 1: Creating Node.js extraction script...'', Write snip,
        Print Stdout ''[OK] Created extract_lut.js'', Print Stdout [],
        Print Stdout ''Step 2: Extracting LUT from mixbox.esm.js...''] @ evs5 @
        [Print Stdout ''[OK] Extraction complete'', Print Stdout [],
              Print Stdout ''Step 3: Converting to Dart format...''] @ evs8"
    have 1: "main_try e w = (Inl x, w8)" by (rule convert_failed(4))
    have 2: "cwd w8 = cwd w" by (rule v(1))
    have 3: "fs w8 snip = Some (File (utf8_encode js_script))" using v(2) ne by (simp add: r w2)
    have 4: "fs w8 out = fs w out" using v(2) ne by (simp add: r w2)
    have 5: "trace w8 = trace w @ evs" by (simp add: v r w2 evs_def)
    have 6: "file_events evs = [Write snip, Read mix, Write raw] @ file_events evs8"
      by (simp add: evs_def r)
    show thesis using that(3)[OF 1 2 3 4 5 6 v(4)] .
  next
    case (cleanup_failed w2 w5 w8 x w11)
    note c = create_ok[OF cleanup_failed(1)]
    have w2: "fs w2 = (fs w)(snip \<mapsto> File (utf8_encode js_script))" "cwd w2 = cwd w"
      by (simp_all add: c snip_def)
    from run_true[OF cleanup_failed(2)] obtain lut p where
      r: "cwd w5 = cwd w" "fs w5 = (fs w2)(raw \<mapsto> File (drop (length lut - expectedSize) lut))"
      by (auto simp add: w2 raw_def)
    from convert_ok[OF cleanup_failed(3)] have
      v: "cwd w8 = cwd w" "\<forall>q. q \<noteq> lib \<and> q \<noteq> utils \<and> q \<noteq> out \<longrightarrow> fs w8 q = fs w5 q"
      by (auto simp add: r lib_def utils_def out_def)
    have a: "fs w8 snip = Some (File (utf8_encode js_script))" using v(2) ne by (simp add: r w2)
    have b: "fs w8 raw = Some (File (drop (length lut - expectedSize) lut))"
      using v(2) ne by (simp add: r w2)
    have "fst (cleanup (print ''Step 4: Cleaning up temporary files...''
          (print [] (print ''[OK] Dart file generated'' w8)))) = Inr ()"
      by (subst cleanup_ok[where a="utf8_encode js_script" and b="drop (length lut - expectedSize) lut"])
         (simp_all add: a b v snip_def[symmetric] raw_def[symmetric])
    then show thesis using cleanup_failed(4) by simp
  next
    case (success w2 w5 w8 w11)
    note c = create_ok[OF success(1)]
    have w2: "fs w2 = (fs w)(snip \<mapsto> File (utf8_encode js_script))" "cwd w2 = cwd w"
      "trace w2 = trace w @ [Print Stdout ''Step 1: Creating Node.js extraction script...'', Write snip]"
      by (simp_all add: c snip_def)
    define w4 where "w4 = print ''Step 2: Extracting LUT from mixbox.esm.js...''
          (print [] (print ''[OK] Created extract_lut.js'' w2))"
    from run_true[OF success(2)] obtain lut p evs5 where
      n: "node_installed e" and d4: "decompress_lut e w4 = Inr (lut, p)"
      and len: "expectedSize \<le> length lut" and
      r: "cwd w5 = cwd w"
         "fs w5 = (fs w2)(raw \<mapsto> File (drop (length lut - expectedSize) lut))"
         "trace w5 = trace w2 @ [Print Stdout ''[OK] Created extract_lut.js'', Print Stdout [],
              Print Stdout ''Step 2: Extracting LUT from mixbox.esm.js...''] @ evs5"
         "file_events evs5 = [Read mix, Write raw]"
      by (auto simp add: w2 mix_def raw_def w4_def)
    have d: "decompress_lut e w = Inr (lut, p)"
      using d4 decompress_lut_cong[of w4 w e] ne by (simp add: w4_def w2 mix_def[symmetric])
    define buf where "buf = drop (length lut - expectedSize) lut"
    define w7 where "w7 = print ''Step 3: Converting to Dart format...''
          (print [] (print ''[OK] Extraction complete'' w5))"
    have f7: "fs w7 = ((fs w)(snip \<mapsto> File (utf8_encode js_script)))(raw \<mapsto> File buf)"
      "cwd w7 = cwd w" by (simp_all add: w7_def r w2 buf_def)
    have f7lib: "fs w7 lib = fs w lib" "fs w7 utils = fs w utils" using ne by (simp_all add: f7)
    have raw7: "fs w7 raw = Some (File buf)" by (simp add: f7)
    have cv: "\<exists>buf'. fs w7 raw = Some (File buf') \<and> cwd w8 = cwd w \<and>
           fs w8 out = Some (File (utf8_encode (dart_code_of buf'))) \<and>
           fs w8 lib = Some Dir \<and> fs w8 utils = Some Dir \<and>
           (\<forall>p. p \<noteq> lib \<and> p \<noteq> utils \<and> p \<noteq> out \<longrightarrow> fs w8 p = fs w7 p) \<and>
           (\<exists>evs. trace w8 = trace w7 @ evs \<and>
              file_events evs = Read raw #
                (if fs w7 lib = None then [Mkdir lib] else []) @
                (if fs w7 utils = None then [Mkdir utils] else []) @ [Write out])"
      using convert_ok[OF success(3)[folded w7_def]]
      unfolding f7(2) snip_def raw_def lib_def utils_def out_def .
    from cv obtain buf' where A: "fs w7 raw = Some (File buf') \<and> cwd w8 = cwd w \<and>
           fs w8 out = Some (File (utf8_encode (dart_code_of buf'))) \<and>
           fs w8 lib = Some Dir \<and> fs w8 utils = Some Dir \<and>
           (\<forall>p. p \<noteq> lib \<and> p \<noteq> utils \<and> p \<noteq> out \<longrightarrow> fs w8 p = fs w7 p) \<and>
           (\<exists>evs. trace w8 = trace w7 @ evs \<and>
              file_events evs = Read raw #
                (if fs w7 lib = None then [Mkdir lib] else []) @
                (if fs w7 utils = None then [Mkdir utils] else []) @ [Write out])" ..
    have bb: "buf' = buf" using A raw7 by simp
    have E: "\<exists>evs. trace w8 = trace w7 @ evs \<and>
              file_events evs = Read raw #
                (if fs w lib = None then [Mkdir lib] else []) @
                (if fs w utils = None then [Mkdir utils] else []) @ [Write out]"
      using A unfolding f7lib by (elim conjE)
    from E obtain evs8 where B: "trace w8 = trace w7 @ evs8 \<and>
              file_events evs8 = Read raw #
                (if fs w lib = None then [Mkdir lib] else []) @
                (if fs w utils = None then [Mkdir utils] else []) @ [Write out]" ..
    have v: "cwd w8 = cwd w"
         "fs w8 out = Some (File (utf8_encode (dart_code_of buf)))"
         "fs w8 lib = Some Dir" "fs w8 utils = Some Dir"
         "\<forall>q. q \<noteq> lib \<and> q \<noteq> utils \<and> q \<noteq> out \<longrightarrow> fs w8 q = fs w7 q"
         "trace w8 = trace w7 @ evs8"
         "file_events evs8 = Read raw #
            (if fs w lib = None then [Mkdir lib] else []) @
            (if fs w utils = None then [Mkdir utils] else []) @ [Write out]"
      using A[unfolded bb] B by simp_all
    have a: "fs w8 snip = Some (File (utf8_encode js_script))" using v(5) ne by (simp add: f7)
    have b: "fs w8 raw = Some (File buf)" using v(5) ne by (simp add: f7)
    define w10 where "w10 = print ''Step 4: Cleaning up temporary files...''
          (print [] (print ''[OK] Dart file generated'' w8))"
    have cl: "cleanup w10 = (Inr (),
           w10\<lparr>fs := (fs w10)(snip := None, raw := None),
              trace := trace w10 @ [Remove snip, Print Stdout (''Cleaned up '' @ ''extract_lut.js''),
                 Remove raw, Print Stdout (''Cleaned up '' @ ''mixbox_lut_raw.bin'')]\<rparr>)"
      using cleanup_ok[of w10 "utf8_encode js_script" buf] a b v(1)
      by (simp add: w10_def snip_def raw_def)
    have w11: "w11 = w10\<lparr>fs := (fs w10)(snip := None, raw := None),
              trace := trace w10 @ [Remove snip, Print Stdout (''Cleaned up '' @ ''extract_lut.js''),
                 Remove raw, Print Stdout (''Cleaned up '' @ ''mixbox_lut_raw.bin'')]\<rparr>"
      using cl success(4) by (simp add: w10_def)
    define W where "W = print (replicate 60 (CHR ''=''))
           (print ''Output: lib/utils/mixbox_lut_data.dart''
             (print ''SUCCESS! Mixbox LUT has been extracted and converted.''
               (print (replicate 60 (CHR ''=''))
                 (print [] (print ''[OK] Cleanup complete'' w11)))))"
    define evs where "evs = [Print Stdout ''Step 1: Creating Node.js extraction script...'', Write snip,
        Print Stdout ''[OK] Created extract_lut.js'', Print Stdout [],
        Print Stdout ''Step 2: Extracting LUT from mixbox.esm.js...''] @ evs5 @
        [Print Stdout ''[OK] Extraction complete'', Print Stdout [],
              Print Stdout ''Step 3: Converting to Dart format...''] @ evs8 @
        [Print Stdout ''[OK] Dart file generated'', Print Stdout [],
         Print Stdout ''Step 4: Cleaning up temporary files...'',
         Remove snip, Print Stdout (''Cleaned up '' @ ''extract_lut.js''),
         Remove raw, Print Stdout (''Cleaned up '' @ ''mixbox_lut_raw.bin''),
         Print Stdout ''[OK] Cleanup complete'', Print Stdout [],
         Print Stdout (replicate 60 (CHR ''='')),
         Print Stdout ''SUCCESS! Mixbox LUT has been extracted and converted.'',
         Print Stdout ''Output: lib/utils/mixbox_lut_data.dart'',
         Print Stdout (replicate 60 (CHR ''=''))]"
    have fsW: "fs W = (fs w8)(snip := None, raw := None)" by (simp add: W_def w11 w10_def)
    have 1: "main_try e w = (Inr 0, W)" using success(5) by (simp add: W_def)
    have 2: "cwd W = cwd w" by (simp add: W_def w11 w10_def v)
    have 3: "fs W out = Some (File (utf8_encode (dart_code_of (drop (length lut - expectedSize) lut))))"
      using ne v(2) by (simp add: fsW buf_def)
    have 4: "fs W snip = None" "fs W raw = None" using ne by (simp_all add: fsW)
    have 5: "fs W lib = Some Dir" "fs W utils = Some Dir" using ne v(3,4) by (simp_all add: fsW)
    have 6: "\<forall>q. q \<noteq> snip \<and> q \<noteq> raw \<and> q \<noteq> lib \<and> q \<noteq> utils \<and> q \<noteq> out \<longrightarrow> fs W q = fs w q"
      using v(5) by (simp add: fsW f7)
    have 7: "trace W = trace w @ evs"
      by (simp add: W_def w11 w10_def v(6) w7_def r w2 evs_def)
    have 8: "file_events evs = [Write snip, Read mix, Write raw, Read raw] @
         (if fs w lib = None then [Mkdir lib] else []) @
         (if fs w utils = None then [Mkdir utils] else []) @
         [Write out, Remove snip, Remove raw]"
      by (simp add: evs_def r(4) v(7))
    show thesis using that(4)[OF 1 2 n d len 3 4 5 6 7 8] .
  qed
qed

section \<open>The outcomes of a run\<close>

lemma at_start_simps [simp]:
  "fs (at_start e w) = fs w" "cwd (at_start e w) = script_dir e"
  "trace (at_start e w) = trace w @
     [Print Stdout (replicate 60 (CHR ''='')), Print Stdout ''Mixbox LUT Extraction Script'',
      Print Stdout (replicate 60 (CHR ''='')), Print Stdout [], Chdir (script_dir e)]"
  by (simp_all add: at_start_def)

lemma main_at_start:
  "main e w = (case main_try e (at_start e w) of
                 (Inr code, W) \<Rightarrow> (code, W)
               | (Inl x, W) \<Rightarrow>
                   (1, traceback_print_exc x (eprint (''\<newline>[ERROR] '' @ str_exn x) W)))"
  by (simp add: main_def at_start_def Let_def)

lemma path_simps:
  "snippet_path e = script_dir e @ [''extract_lut.js'']"
  "raw_path e = script_dir e @ [''mixbox_lut_raw.bin'']"
  "out_path e = butlast (script_dir e) @ [''lib'', ''utils'', ''mixbox_lut_data.dart'']"
  by (simp_all add: snippet_path_def raw_path_def out_path_def
        resolve_snippet resolve_raw resolve_output)

lemma input_path_eq:
  "input_path e = butlast (script_dir e) @
      [''reference-mixbox'', ''mixbox-master'', ''javascript'', ''mixbox.esm.js'']"
  by (simp add: input_path_def resolve_mixbox)

lemma decompress_at_start:
  "decompress_lut e (at_start e w) = decompress_lut e (w\<lparr>cwd := script_dir e\<rparr>)"
  by (rule decompress_lut_cong) simp_all

lemma run_events_eq: "trace (snd (main e w)) = trace w @ evs \<Longrightarrow> run_events e w = evs"
  by (simp add: run_events_def)

lemma main_outcome:
  fixes e :: env and w :: world
  obtains
    (create_failed) x where
      "fst (main e w) = 1" "fs (snd (main e w)) = fs w" "cwd (snd (main e w)) = script_dir e"
      "fst (main_try e (at_start e w)) = Inl x"
      "run_events e w =
         [Print Stdout (replicate 60 (CHR ''='')), Print Stdout ''Mixbox LUT Extraction Script'',
          Print Stdout (replicate 60 (CHR ''='')), Print Stdout [], Chdir (script_dir e),
          Print Stdout ''Step 1: Creating Node.js extraction script...'',
          Print Stderr (''\<newline>[ERROR] '' @ str_exn x), Traceback x]"
  | (extract_failed)
      "fst (main e w) = 1" "cwd (snd (main e w)) = script_dir e"
      "fs (snd (main e w)) = (fs w)(snippet_path e \<mapsto> File (utf8_encode js_script))"
      "file_events (run_events e w) = [Chdir (script_dir e), Write (snippet_path e)] \<or>
       file_events (run_events e w) = [Chdir (script_dir e), Write (snippet_path e), Read (input_path e)]"
      "\<exists>m. Print Stderr m \<in> set (run_events e w)"
  | (convert_failed) x evs rest where
      "fst (main e w) = 1" "cwd (snd (main e w)) = script_dir e"
      "fst (main_try e (at_start e w)) = Inl x"
      "fs (snd (main e w)) (snippet_path e) = Some (File (utf8_encode js_script))"
      "fs (snd (main e w)) (out_path e) = fs w (out_path e)"
      "run_events e w = evs @ [Print Stderr (''\<newline>[ERROR] '' @ str_exn x), Traceback x]"
      "file_events (run_events e w) =
         [Chdir (script_dir e), Write (snippet_path e), Read (input_path e), Write (raw_path e)] @ rest"
      "set rest \<subseteq> {Read (raw_path e), Mkdir (butlast (script_dir e) @ [''lib'']),
                     Mkdir (butlast (script_dir e) @ [''lib'', ''utils''])}"
  | (success) lut p where
      "fst (main e w) = 0" "cwd (snd (main e w)) = script_dir e" "node_installed e"
      "decompress_lut e (w\<lparr>cwd := script_dir e\<rparr>) = Inr (lut, p)" "expectedSize \<le> length lut"
      "fs (snd (main e w)) (out_path e) =
         Some (File (utf8_encode (dart_code_of (drop (length lut - expectedSize) lut))))"
      "fs (snd (main e w)) (snippet_path e) = None" "fs (snd (main e w)) (raw_path e) = None"
      "fs (snd (main e w)) (butlast (script_dir e) @ [''lib'']) = Some Dir"
      "fs (snd (main e w)) (butlast (script_dir e) @ [''lib'', ''utils'']) = Some Dir"
      "file_events (run_events e w) =
         [Chdir (script_dir e), Write (snippet_path e), Read (input_path e), Write (raw_path e),
          Read (raw_path e)] @
         (if fs w (butlast (script_dir e) @ [''lib'']) = None
          then [Mkdir (butlast (script_dir e) @ [''lib''])] else []) @
         (if fs w (butlast (script_dir e) @ [''lib'', ''utils'']) = None
          then [Mkdir (butlast (script_dir e) @ [''lib'', ''utils''])] else []) @
         [Write (out_path e), Remove (snippet_path e), Remove (raw_path e)]"
proof (cases rule: main_try_outcome[where e=e and w="at_start e w"])
  case (create_failed x)
  have m: "main e w = (1, traceback_print_exc x (eprint (''\<newline>[ERROR] '' @ str_exn x)
             (print ''Step 1: Creating Node.js extraction script...'' (at_start e w))))"
    by (simp add: main_at_start create_failed)
  have 1: "fst (main e w) = 1" by (simp add: m)
  have 2: "fs (snd (main e w)) = fs w" by (simp add: m)
  have 3: "cwd (snd (main e w)) = script_dir e" by (simp add: m)
  have 4: "fst (main_try e (at_start e w)) = Inl x" by (simp add: create_failed)
  have 5: "run_events e w =
         [Print Stdout (replicate 60 (CHR ''='')), Print Stdout ''Mixbox LUT Extraction Script'',
          Print Stdout (replicate 60 (CHR ''='')), Print Stdout [], Chdir (script_dir e),
          Print Stdout ''Step 1: Creating Node.js extraction script...'',
          Print Stderr (''\<newline>[ERROR] '' @ str_exn x), Traceback x]"
    by (rule run_events_eq) (simp add: m)
  show thesis using that(1)[OF 1 2 3 4 5] .
next
  case (extract_failed W evs)
  have m: "main e w = (1, W)" by (simp add: main_at_start extract_failed(1))
  have re: "run_events e w =
         [Print Stdout (replicate 60 (CHR ''='')), Print Stdout ''Mixbox LUT Extraction Script'',
          Print Stdout (replicate 60 (CHR ''='')), Print Stdout [], Chdir (script_dir e)] @ evs"
    by (rule run_events_eq) (simp add: m extract_failed(4))
  have 1: "fst (main e w) = 1" by (simp add: m)
  have 2: "cwd (snd (main e w)) = script_dir e" using extract_failed(2) by (simp add: m)
  have 3: "fs (snd (main e w)) = (fs w)(snippet_path e \<mapsto> File (utf8_encode js_script))"
    using extract_failed(3) by (simp add: m path_simps)
  have 4: "file_events (run_events e w) = [Chdir (script_dir e), Write (snippet_path e)] \<or>
       file_events (run_events e w) = [Chdir (script_dir e), Write (snippet_path e), Read (input_path e)]"
    using extract_failed(5) by (simp add: re path_simps input_path_def)
  have 5: "\<exists>m. Print Stderr m \<in> set (run_events e w)"
    using extract_failed(6) by (simp add: re)
  show thesis using that(2)[OF 1 2 3 4 5] .
next
  case (convert_failed x W evs rest)
  have m: "main e w = (1, traceback_print_exc x (eprint (''\<newline>[ERROR] '' @ str_exn x) W))"
    by (simp add: main_at_start convert_failed(1))
  have re: "run_events e w =
         ([Print Stdout (replicate 60 (CHR ''='')), Print Stdout ''Mixbox LUT Extraction Script'',
          Print Stdout (replicate 60 (CHR ''='')), Print Stdout [], Chdir (script_dir e)] @ evs) @
         [Print Stderr (''\<newline>[ERROR] '' @ str_exn x), Traceback x]"
    by (rule run_events_eq) (simp add: m convert_failed(5))
  have 1: "fst (main e w) = 1" by (simp add: m)
  have 2: "cwd (snd (main e w)) = script_dir e" using convert_failed(2) by (simp add: m)
  have 3: "fst (main_try e (at_start e w)) = Inl x" by (simp add: convert_failed(1))
  have 4: "fs (snd (main e w)) (snippet_path e) = Some (File (utf8_encode js_script))"
    using convert_failed(3) by (simp add: m path_simps)
  have 5: "fs (snd (main e w)) (out_path e) = fs w (out_path e)"
    using convert_failed(4) by (simp add: m out_path_def)
  have 6: "file_events (run_events e w) =
         [Chdir (script_dir e), Write (snippet_path e), Read (input_path e), Write (raw_path e)] @ rest"
    using convert_failed(6) by (simp add: re path_simps input_path_def)
  have 7: "set rest \<subseteq> {Read (raw_path e), Mkdir (butlast (script_dir e) @ [''lib'']),
                     Mkdir (butlast (script_dir e) @ [''lib'', ''utils''])}"
    using convert_failed(7) by (simp add: path_simps)
  show thesis using that(3)[OF 1 2 3 4 5 re 6 7] .
next
  case (success W evs lut p)
  have m: "main e w = (0, W)" by (simp add: main_at_start success(1))
  have re: "run_events e w =
         [Print Stdout (replicate 60 (CHR ''='')), Print Stdout ''Mixbox LUT Extraction Script'',
          Print Stdout (replicate 60 (CHR ''='')), Print Stdout [], Chdir (script_dir e)] @ evs"
    by (rule run_events_eq) (simp add: m success(12))
  have 1: "fst (main e w) = 0" by (simp add: m)
  have 2: "cwd (snd (main e w)) = script_dir e" using success(2) by (simp add: m)
  have 4: "decompress_lut e (w\<lparr>cwd := script_dir e\<rparr>) = Inr (lut, p)"
    using success(4) by (simp add: decompress_at_start)
  have 6: "fs (snd (main e w)) (out_path e) =
         Some (File (utf8_encode (dart_code_of (drop (length lut - expectedSize) lut))))"
    using success(6) by (simp add: m out_path_def)
  have 7: "fs (snd (main e w)) (snippet_path e) = None" "fs (snd (main e w)) (raw_path e) = None"
    using success(7,8) by (simp_all add: m path_simps)
  have 8: "fs (snd (main e w)) (butlast (script_dir e) @ [''lib'']) = Some Dir"
      "fs (snd (main e w)) (butlast (script_dir e) @ [''lib'', ''utils'']) = Some Dir"
    using success(9,10) by (simp_all add: m)
  have 9: "file_events (run_events e w) =
         [Chdir (script_dir e), Write (snippet_path e), Read (input_path e), Write (raw_path e),
          Read (raw_path e)] @
         (if fs w (butlast (script_dir e) @ [''lib'']) = None
          then [Mkdir (butlast (script_dir e) @ [''lib''])] else []) @
         (if fs w (butlast (script_dir e) @ [''lib'', ''utils'']) = None
          then [Mkdir (butlast (script_dir e) @ [''lib'', ''utils''])] else []) @
         [Write (out_path e), Remove (snippet_path e), Remove (raw_path e)]"
    using success(13) by (simp add: re path_simps input_path_def out_path_def resolve_output)
  show thesis using that(4)[OF 1 2 success(3) 4 success(5) 6 7 8 9] .
qed

lemma in_file_events: "ev \<in> set (file_events evs) \<longleftrightarrow> ev \<in> set evs \<and> \<not> is_print ev"
  by (simp add: file_events_def)

lemma write_in_events: "Write p \<in> set evs \<longleftrightarrow> Write p \<in> set (file_events evs)"
  by (simp add: in_file_events is_print_def)

lemma remove_in_events: "Remove p \<in> set evs \<longleftrightarrow> Remove p \<in> set (file_events evs)"
  by (simp add: in_file_events is_print_def)

lemma decompressed_Some:
  "decompressed e w = Some lut \<longleftrightarrow> (\<exists>p. decompress_lut e w = Inr (lut, p))"
  by (simp add: decompressed_def split: sum.splits prod.splits)


lemma main_success:
  assumes "fst (main e w) = 0"
  obtains lut where
      "node_installed e"
      "decompressed e (w\<lparr>cwd := script_dir e\<rparr>) = Some lut" "expectedSize \<le> length lut"
      "fs (snd (main e w)) (out_path e) =
         Some (File (utf8_encode (dart_code_of (drop (length lut - expectedSize) lut))))"
      "fs (snd (main e w)) (snippet_path e) = None" "fs (snd (main e w)) (raw_path e) = None"
      "fs (snd (main e w)) (butlast (script_dir e) @ [''lib'']) = Some Dir"
      "fs (snd (main e w)) (butlast (script_dir e) @ [''lib'', ''utils'']) = Some Dir"
      "file_events (run_events e w) =
         [Chdir (script_dir e), Write (snippet_path e), Read (input_path e), Write (raw_path e),
          Read (raw_path e)] @
         (if fs w (butlast (script_dir e) @ [''lib'']) = None
          then [Mkdir (butlast (script_dir e) @ [''lib''])] else []) @
         (if fs w (butlast (script_dir e) @ [''lib'', ''utils'']) = None
          then [Mkdir (butlast (script_dir e) @ [''lib'', ''utils''])] else []) @
         [Write (out_path e), Remove (snippet_path e), Remove (raw_path e)]"
proof (cases rule: main_outcome[of e w])
  case (create_failed x)
  then show ?thesis using assms by simp
next
  case extract_failed
  then show ?thesis using assms by simp
next
  case (convert_failed x evs rest)
  then show ?thesis using assms by simp
next
  case (success lut p)
  have d: "decompressed e (w\<lparr>cwd := script_dir e\<rparr>) = Some lut"
    using success(4) by (simp add: decompressed_def)
  show ?thesis using that[OF success(3) d success(5-11)] .
qed

lemma main_failure:
  assumes "fst (main e w) \<noteq> 0"
  shows "fst (main e w) = 1"
    and "fs (snd (main e w)) (out_path e) = fs w (out_path e)"
    and "Write (out_path e) \<notin> set (run_events e w)"
    and "Remove p \<notin> set (run_events e w)"
    and "\<exists>m. Print Stderr m \<in> set (run_events e w)"
    and "Write (snippet_path e) \<in> set (run_events e w) \<Longrightarrow>
           fs (snd (main e w)) (snippet_path e) = Some (File (utf8_encode js_script))"
proof -
  have ne: "out_path e \<noteq> snippet_path e" "out_path e \<noteq> raw_path e"
    by (simp_all add: path_simps)
  have "fst (main e w) = 1 \<and> fs (snd (main e w)) (out_path e) = fs w (out_path e) \<and>
        Write (out_path e) \<notin> set (file_events (run_events e w)) \<and>
        Remove p \<notin> set (file_events (run_events e w)) \<and>
        (\<exists>m. Print Stderr m \<in> set (run_events e w)) \<and>
        (Write (snippet_path e) \<in> set (file_events (run_events e w)) \<longrightarrow>
           fs (snd (main e w)) (snippet_path e) = Some (File (utf8_encode js_script)))"
  proof (cases rule: main_outcome[of e w])
    case (create_failed x)
    then show ?thesis by simp
  next
    case extract_failed
    from extract_failed(4) show ?thesis
      using extract_failed(1,3,5) ne by (elim disjE) simp_all
  next
    case (convert_failed x evs rest)
    have "Print Stderr (''\<newline>[ERROR] '' @ str_exn x) \<in> set (run_events e w)"
      by (simp add: convert_failed(6))
    then have pe: "\<exists>m. Print Stderr m \<in> set (run_events e w)" by (rule exI)
    have r1: "Write (out_path e) \<notin> set rest" using convert_failed(8) by auto
    have r2: "Remove p \<notin> set rest" using convert_failed(8) by auto
    show ?thesis
      using convert_failed(1,4,5) pe r1 r2 ne by (simp add: convert_failed(7))
  next
    case (success lut p)
    then show ?thesis using assms by simp
  qed
  then show "fst (main e w) = 1"
    and "fs (snd (main e w)) (out_path e) = fs w (out_path e)"
    and "Write (out_path e) \<notin> set (run_events e w)"
    and "Remove p \<notin> set (run_events e w)"
    and "\<exists>m. Print Stderr m \<in> set (run_events e w)"
    and "Write (snippet_path e) \<in> set (run_events e w) \<Longrightarrow>
           fs (snd (main e w)) (snippet_path e) = Some (File (utf8_encode js_script))"
    by (simp_all add: write_in_events[of _ "run_events e w"] remove_in_events[of _ "run_events e w"])
qed

section \<open>Runs that succeed\<close>

text \<open>Conditions under which each stage, and then the whole run, goes through: the
  directories the files are written to exist, and none of the files to write is a
  directory.\<close>

lemma fs_write_suff:
  "f (butlast p) = Some Dir \<Longrightarrow> f p \<noteq> Some Dir \<Longrightarrow> fs_write f p d = Inr (f(p \<mapsto> File d))"
  by (simp add: fs_write_def split: option.splits entry.splits)

lemma create_suff:
  assumes "fs w (cwd w) = Some Dir" "fs w (cwd w @ [''extract_lut.js'']) \<noteq> Some Dir"
  shows "fst (create_extraction_script w) = Inr ()"
  using assms
  by (simp add: create_extraction_script_def open_write_def fs_write_def resolve_snippet Let_def
        split: option.splits entry.splits)

lemma js_suff:
  assumes "decompress_lut e w = Inr (lut, p)" "expectedSize \<le> length lut"
    "fs w (cwd w) = Some Dir" "fs w (cwd w @ [''mixbox_lut_raw.bin'']) \<noteq> Some Dir"
  shows "returncode (fst (extract_lut_js e w)) = 0"
proof -
  obtain res p4 where sn: "size_normalizer lut p = (res, p4)" by (cases "size_normalizer lut p")
  obtain buf where res: "res = Inr buf"
    using sn assms(2) by (cases res) (auto dest: size_normalizer_Inl)
  have wr: "fs_write (fs w) (cwd w @ [''mixbox_lut_raw.bin'']) buf =
      Inr ((fs w)(cwd w @ [''mixbox_lut_raw.bin''] \<mapsto> File buf))"
    using assms(3,4) by (simp add: fs_write_suff)
  show ?thesis
    using assms(1) sn res wr by (simp add: extract_lut_js_def js_exit_def Let_def resolve_raw)
qed

lemma run_suff:
  assumes "node_installed e" "decompress_lut e w = Inr (lut, p)" "expectedSize \<le> length lut"
    "fs w (cwd w) = Some Dir" "fs w (cwd w @ [''mixbox_lut_raw.bin'']) \<noteq> Some Dir"
  shows "fst (run_extraction e w) = Inr True"
proof -
  define w1 where "w1 = print ''Running Node.js extraction script...'' w"
  have d: "decompress_lut e w1 = Inr (lut, p)"
    using assms(2) decompress_lut_cong[of w1 w e] by (simp add: w1_def)
  have "returncode (fst (extract_lut_js e w1)) = 0"
    by (rule js_suff[OF d assms(3)]) (simp_all add: w1_def assms)
  then show ?thesis
    using run_extraction_cases[of e w] assms(1) unfolding w1_def by (elim disjE conjE) simp_all
qed

lemma makedirs_suff:
  assumes "fs w (butlast (cwd w)) = Some Dir"
    "fs w (butlast (cwd w) @ [''lib'']) = None \<or> fs w (butlast (cwd w) @ [''lib'']) = Some Dir"
    "fs w (butlast (cwd w) @ [''lib'', ''utils'']) = None \<or>
     fs w (butlast (cwd w) @ [''lib'', ''utils'']) = Some Dir"
  shows "fst (os_makedirs (os_path_dirname output_path) w) = Inr ()"
proof -
  have n: "os_path_dirname output_path = [''..'', ''lib'', ''utils'']"
    by (simp add: os_path_dirname_def output_path_def)
  have b: "butlast (butlast (cwd w) @ [''lib'']) = butlast (cwd w)"
          "butlast (butlast (cwd w) @ [''lib'', ''utils'']) = butlast (cwd w) @ [''lib'']"
    by (simp_all add: butlast_append)
  show ?thesis
    unfolding os_makedirs_def n makedirs_dotdot
    using assms
    by (auto simp add: walk_def Let_def fs_mkdir_def b split: option.splits entry.splits)
qed


lemma convert_suff:
  assumes raw: "fs w (cwd w @ [''mixbox_lut_raw.bin'']) = Some (File buf)"
    and par: "fs w (butlast (cwd w)) = Some Dir"
    and lib: "fs w (butlast (cwd w) @ [''lib'']) = None \<or> fs w (butlast (cwd w) @ [''lib'']) = Some Dir"
    and utils: "fs w (butlast (cwd w) @ [''lib'', ''utils'']) = None \<or>
                fs w (butlast (cwd w) @ [''lib'', ''utils'']) = Some Dir"
    and out: "fs w (resolve (cwd w) output_path) \<noteq> Some Dir"
  shows "fst (convert_to_dart w) = Inr ()"
proof -
  define w1 where "w1 = print ''Converting to Dart format...'' w"
  define rawp where "rawp = cwd w @ [''mixbox_lut_raw.bin'']"
  define outp where "outp = resolve (cwd w) output_path"
  have rd: "fs_read (fs w) rawp = Inr buf" using raw by (simp add: fs_read_Inr rawp_def)
  define w3 where "w3 = print (''Read '' @ str (length buf) @ '' bytes'')
                          (w1\<lparr>trace := trace w1 @ [Read rawp]\<rparr>)"
  have fs3: "fs w3 = fs w" "cwd w3 = cwd w" by (simp_all add: w3_def w1_def)
  obtain r4 w4 where mk: "os_makedirs (os_path_dirname output_path) w3 = (r4, w4)"
    by (cases "os_makedirs (os_path_dirname output_path) w3")
  have r4: "r4 = Inr ()"
    using makedirs_suff[of w3] mk par lib utils by (simp add: fs3)
  note m = os_makedirs_output[OF mk]
  have cw4: "cwd w4 = cwd w" using m by (simp add: fs3)
  have oe: "outp = butlast (cwd w) @ [''lib'', ''utils'', ''mixbox_lut_data.dart'']"
    by (simp add: outp_def resolve_output)
  have bo: "butlast outp = butlast (cwd w) @ [''lib'', ''utils'']"
    by (simp add: oe butlast_append)
  have "fs w4 outp = fs w outp" using m by (simp add: fs3 oe)
  then have o4: "fs w4 outp \<noteq> Some Dir" using out by (simp add: outp_def)
  have u4: "fs w4 (butlast outp) = Some Dir" using m r4 by (simp add: fs3 bo)
  have wr: "fs_write (fs w4) outp (utf8_encode (dart_code_of buf)) =
              Inr ((fs w4)(outp \<mapsto> File (utf8_encode (dart_code_of buf))))"
    by (rule fs_write_suff[OF u4 o4])
  have ow: "open_write output_path (utf8_encode (dart_code_of buf)) w4 =
       (Inr (), w4\<lparr>fs := (fs w4)(outp \<mapsto> File (utf8_encode (dart_code_of buf))),
                    trace := trace w4 @ [Write outp]\<rparr>)"
    using wr by (simp add: open_write_def Let_def cw4 outp_def)
  show ?thesis
    using rd mk r4 ow
    by (simp add: convert_to_dart_def open_read_def Let_def resolve_raw rawp_def w1_def w3_def)
qed

lemma main_succeeds:
  fixes e :: env and w :: world
  assumes node: "node_installed e"
    and dir: "fs w (script_dir e) = Some Dir"
    and par: "fs w (butlast (script_dir e)) = Some Dir"
    and snip: "fs w (snippet_path e) \<noteq> Some Dir"
    and raw: "fs w (raw_path e) \<noteq> Some Dir"
    and dec: "decompressed e (w\<lparr>cwd := script_dir e\<rparr>) = Some lut"
    and len: "expectedSize \<le> length lut"
    and lib: "fs w (butlast (script_dir e) @ [''lib'']) = None \<or>
              fs w (butlast (script_dir e) @ [''lib'']) = Some Dir"
    and utils: "fs w (butlast (script_dir e) @ [''lib'', ''utils'']) = None \<or>
                fs w (butlast (script_dir e) @ [''lib'', ''utils'']) = Some Dir"
    and out: "fs w (out_path e) \<noteq> Some Dir"
  shows "fst (main e w) = 0"
proof -
  define d where "d = script_dir e"
  define sp where "sp = d @ [''extract_lut.js'']"
  define rp where "rp = d @ [''mixbox_lut_raw.bin'']"
  define op where "op = butlast d @ [''lib'', ''utils'', ''mixbox_lut_data.dart'']"
  define lp where "lp = butlast d @ [''lib'']"
  define up where "up = butlast d @ [''lib'', ''utils'']"
  define mp where "mp = butlast d @ [''reference-mixbox'', ''mixbox-master'', ''javascript'', ''mixbox.esm.js'']"
  have ne: "sp \<noteq> rp" "sp \<noteq> mp" "sp \<noteq> lp" "sp \<noteq> up" "sp \<noteq> op" "sp \<noteq> d" "sp \<noteq> butlast d"
           "rp \<noteq> mp" "rp \<noteq> lp" "rp \<noteq> up" "rp \<noteq> op" "rp \<noteq> d" "rp \<noteq> butlast d"
           "op \<noteq> lp" "op \<noteq> up"
    by (simp_all add: sp_def rp_def op_def lp_def up_def mp_def)
  obtain p where dl: "decompress_lut e (w\<lparr>cwd := d\<rparr>) = Inr (lut, p)"
    using dec by (auto simp add: decompressed_Some d_def)
  have A: "fs w d = Some Dir" "fs w (butlast d) = Some Dir" "fs w sp \<noteq> Some Dir"
    "fs w rp \<noteq> Some Dir" "fs w lp = None \<or> fs w lp = Some Dir"
    "fs w up = None \<or> fs w up = Some Dir" "fs w op \<noteq> Some Dir"
    using dir par snip raw lib utils out
    by (simp_all add: d_def sp_def rp_def lp_def up_def op_def path_simps)
  define w0 where "w0 = at_start e w"
  have w0: "fs w0 = fs w" "cwd w0 = d" by (simp_all add: w0_def d_def)
  show ?thesis
  proof (cases rule: main_try_cases[where e=e and w=w0])
    case (create_failed x wa)
    have "fst (create_extraction_script (print ''Step 1: Creating Node.js extraction script...'' w0)) = Inr ()"
      by (rule create_suff) (simp_all add: w0 A sp_def[symmetric])
    then show ?thesis using create_failed(1) by simp
  next
    case (extract_failed w2 w5)
    note c = create_ok[OF extract_failed(1)]
    define w4 where "w4 = print ''Step 2: Extracting LUT from mixbox.esm.js...''
          (print [] (print ''[OK] Created extract_lut.js'' w2))"
    have f4: "fs w4 = (fs w)(sp \<mapsto> File (utf8_encode js_script))" "cwd w4 = d"
      by (simp_all add: w4_def c w0 sp_def)
    have d4: "decompress_lut e w4 = Inr (lut, p)"
      using dl decompress_lut_cong[of w4 "w\<lparr>cwd := d\<rparr>" e] ne
      by (simp add: f4 resolve_mixbox mp_def[symmetric])
    have "fst (run_extraction e w4) = Inr True"
      by (rule run_suff[OF node d4 len]) (simp_all add: f4 A ne[symmetric] rp_def[symmetric])
    then show ?thesis using extract_failed(2) by (simp add: w4_def)
  next
    case (convert_failed w2 w5 x w8)
    note c = create_ok[OF convert_failed(1)]
    have f2: "fs w2 = (fs w)(sp \<mapsto> File (utf8_encode js_script))" "cwd w2 = d"
      by (simp_all add: c w0 sp_def)
    from run_true[OF convert_failed(2)] obtain l' where
      r: "cwd w5 = d" "fs w5 = (fs w2)(rp \<mapsto> File l')"
      by (auto simp add: f2 rp_def)
    define w7 where "w7 = print ''Step 3: Converting to Dart format...''
          (print [] (print ''[OK] Extraction complete'' w5))"
    have f7: "fs w7 = ((fs w)(sp \<mapsto> File (utf8_encode js_script)))(rp \<mapsto> File l')" "cwd w7 = d"
      by (simp_all add: w7_def r f2)
    have "fst (convert_to_dart w7) = Inr ()"
      by (rule convert_suff[where buf=l'])
         (simp_all add: f7 A ne[symmetric] rp_def[symmetric] lp_def[symmetric] up_def[symmetric]
            resolve_output op_def[symmetric])
    then show ?thesis using convert_failed(3) by (simp add: w7_def)
  next
    case (cleanup_failed w2 w5 w8 x w11)
    note c = create_ok[OF cleanup_failed(1)]
    have f2: "fs w2 = (fs w)(sp \<mapsto> File (utf8_encode js_script))" "cwd w2 = d"
      by (simp_all add: c w0 sp_def)
    from run_true[OF cleanup_failed(2)] obtain l' where
      r: "cwd w5 = d" "fs w5 = (fs w2)(rp \<mapsto> File l')"
      by (auto simp add: f2 rp_def)
    from convert_ok[OF cleanup_failed(3)] have
      v: "cwd w8 = d" "\<forall>q. q \<noteq> lp \<and> q \<noteq> up \<and> q \<noteq> op \<longrightarrow> fs w8 q = fs w5 q"
      by (auto simp add: r lp_def up_def op_def resolve_output)
    have a: "fs w8 sp = Some (File (utf8_encode js_script))" using v(2) ne by (simp add: r f2)
    have b: "fs w8 rp = Some (File l')" using v(2) ne by (simp add: r f2)
    have "fst (cleanup (print ''Step 4: Cleaning up temporary files...''
          (print [] (print ''[OK] Dart file generated'' w8)))) = Inr ()"
      by (subst cleanup_ok[where a="utf8_encode js_script" and b=l'])
         (simp_all add: a b v sp_def[symmetric] rp_def[symmetric])
    then show ?thesis using cleanup_failed(4) by simp
  next
    case (success w2 w5 w8 w11)
    show ?thesis using success(5) by (simp add: main_at_start w0_def)
  qed
qed

section \<open>A sample run\<close>

text \<open>The sample repository, and general consequences of the outcomes of a run.\<close>

lemma sample_match: "lut_match sample_code = Some ''eJzt''"
  unfolding sample_code_def by code_simp

lemma sample_index: "indexOf sample_code ''function decompress('' = 0"
  unfolding sample_code_def by code_simp

lemma sample_paths:
  "script_dir (sample_env lut) = [''repo'', ''scripts'']"
  "snippet_path (sample_env lut) = [''repo'', ''scripts'', ''extract_lut.js'']"
  "raw_path (sample_env lut) = [''repo'', ''scripts'', ''mixbox_lut_raw.bin'']"
  "input_path (sample_env lut) =
     [''repo'', ''reference-mixbox'', ''mixbox-master'', ''javascript'', ''mixbox.esm.js'']"
  "out_path (sample_env lut) = [''repo'', ''lib'', ''utils'', ''mixbox_lut_data.dart'']"
  by (simp_all add: path_simps input_path_eq sample_env_def)

lemma sample_fs_simps:
  "sample_fs [''repo''] = Some Dir"
  "sample_fs [''repo'', ''scripts''] = Some Dir"
  "sample_fs [''repo'', ''scripts'', ''extract_lut.js''] = None"
  "sample_fs [''repo'', ''scripts'', ''mixbox_lut_raw.bin''] = None"
  "sample_fs [''repo'', ''lib''] = None"
  "sample_fs [''repo'', ''lib'', ''utils''] = None"
  "sample_fs [''repo'', ''lib'', ''utils'', ''mixbox_lut_data.dart''] = None"
  "sample_fs [''repo'', ''reference-mixbox'', ''mixbox-master'', ''javascript'', ''mixbox.esm.js'']
     = Some (File sample_code)"
  by (simp_all add: sample_fs_def)

lemma sample_decompressed:
  "decompressed (sample_env lut) (sample_world\<lparr>cwd := script_dir (sample_env lut)\<rparr>) = Some lut"
  by (simp add: decompressed_def decompress_lut_def resolve_mixbox fs_read_def sample_match
        sample_index Let_def sample_env_def sample_world_def sample_fs_simps)

lemma sample_main_ok:
  assumes "expectedSize \<le> length lut"
  shows "fst (main (sample_env lut) sample_world) = 0"
  by (rule main_succeeds[OF _ _ _ _ _ sample_decompressed assms])
     (simp_all add: sample_paths sample_world_def sample_fs_simps, simp add: sample_env_def)


lemma sample_status_ok:
  assumes "expectedSize \<le> length lut"
  shows "returncode (fst (extract_lut_js (sample_env lut)
            (sample_world\<lparr>cwd := script_dir (sample_env lut)\<rparr>))) = 0"
proof -
  obtain p where d: "decompress_lut (sample_env lut)
      (sample_world\<lparr>cwd := script_dir (sample_env lut)\<rparr>) = Inr (lut, p)"
    using sample_decompressed[of lut] by (auto simp add: decompressed_Some)
  show ?thesis
    by (rule js_suff[OF d assms]) (simp_all add: sample_paths sample_world_def sample_fs_simps)
qed

lemma main_cwd: "cwd (snd (main e w)) = script_dir e"
  by (cases rule: main_outcome[of e w]) simp_all


lemma main_short:
  assumes "decompressed e (w\<lparr>cwd := script_dir e\<rparr>) = Some lut" "length lut < expectedSize"
  shows "fst (main e w) \<noteq> 0"
proof
  assume "fst (main e w) = 0"
  then obtain lut' where "decompressed e (w\<lparr>cwd := script_dir e\<rparr>) = Some lut'"
    "expectedSize \<le> length lut'"
    by (rule main_success)
  then show False using assms by simp
qed

lemma main_undecompressed:
  assumes "decompressed e (w\<lparr>cwd := script_dir e\<rparr>) = None"
  shows "fst (main e w) = 1"
proof -
  have "fst (main e w) \<noteq> 0"
  proof
    assume "fst (main e w) = 0"
    then obtain lut' where "decompressed e (w\<lparr>cwd := script_dir e\<rparr>) = Some lut'"
      by (rule main_success)
    then show False using assms by simp
  qed
  then show ?thesis by (rule main_failure(1))
qed

lemma decompress_stderr: "decompress_lut e w = Inr (lut, p) \<Longrightarrow> js_stderr p = []"
  by (auto simp add: decompress_lut_def Let_def console_log_def
        split: sum.splits option.splits if_splits)

lemma of_char_le_255: "(of_char (b :: char) :: nat) \<le> 255"
proof -
  have a: "(of_char b :: nat) mod 256 = of_char b" by (rule of_char_mod_256)
  have "(of_char b :: nat) mod 256 < 256" by (rule mod_less_divisor) simp
  then have "(of_char b :: nat) < 256" by (simp only: a)
  then show ?thesis by linarith
qed

lemma sample_no_node_events:
  "run_events (sample_env lut\<lparr>node_installed := False\<rparr>) sample_world =
     [Print Stdout (replicate 60 (CHR ''='')), Print Stdout ''Mixbox LUT Extraction Script'',
      Print Stdout (replicate 60 (CHR ''='')), Print Stdout [], Chdir [''repo'', ''scripts''],
      Print Stdout ''Step 1: Creating Node.js extraction script...'',
      Write [''repo'', ''scripts'', ''extract_lut.js''],
      Print Stdout ''[OK] Created extract_lut.js'', Print Stdout [],
      Print Stdout ''Step 2: Extracting LUT from mixbox.esm.js...'',
      Print Stdout ''Running Node.js extraction script...'',
      Print Stderr ''Error: Node.js not found. Please install Node.js to run this script.'',
      Print Stdout ''[FAIL] Extraction failed'']"
  by (simp add: run_events_def main_def main_try_def create_extraction_script_def open_write_def
        fs_write_def run_extraction_def subprocess_run_def Let_def sample_env_def
        sample_world_def sample_fs_simps resolve_snippet print_def eprint_def os_chdir_def)

section \<open>Size normalisation\<close>

text \<open>
  Claim C1. A decompressed buffer of exactly 786,432 bytes is kept unchanged; a longer one
  loses its leading (length - 786,432) bytes and exactly its trailing 786,432 bytes are
  kept, and when the snippet ends with status 0 that window is what it has written to
  \<^verbatim>\<open>mixbox_lut_raw.bin\<close>; a shorter one is fatal: the snippet prints its complaint on
  standard error and ends with status 1 without having changed the file system, and the
  run of the script ends with status 1 and leaves the output file as it was.
\<close>

theorem size_normalizer_policy:
  "(length lut = 786432 \<longrightarrow> fst (size_normalizer lut p) = Inr lut) \<and>
   (length lut > 786432 \<longrightarrow>
      (\<exists>header kept. lut = header @ kept \<and> length header = length lut - 786432 \<and>
         length kept = 786432 \<and> fst (size_normalizer lut p) = Inr kept)) \<and>
   (length lut < 786432 \<longrightarrow> fst (size_normalizer lut p) = Inl 1 \<and>
      (decompressed e w = Some lut \<longrightarrow>
         returncode (fst (extract_lut_js e w)) = 1 \<and>
         stderr (fst (extract_lut_js e w)) = ''Decompressed data smaller than expected!\<newline>'' \<and>
         fs (snd (extract_lut_js e w)) = fs w) \<and>
      (decompressed e (w0\<lparr>cwd := script_dir e\<rparr>) = Some lut \<longrightarrow>
         fst (main e w0) = 1 \<and> fs (snd (main e w0)) (out_path e) = fs w0 (out_path e))) \<and>
   (length lut \<ge> 786432 \<and> decompressed e w = Some lut \<and>
    returncode (fst (extract_lut_js e w)) = 0 \<longrightarrow>
      fs (snd (extract_lut_js e w)) (resolve (cwd w) [''mixbox_lut_raw.bin'']) =
        Some (File (drop (length lut - 786432) lut)))"
proof (intro conjI impI)
  assume "length lut = 786432"
  then show "fst (size_normalizer lut p) = Inr lut"
    by (simp add: size_normalizer_def expectedSize_def)
next
  assume big: "length lut > 786432"
  let ?off = "length lut - 786432"
  have "lut = take ?off lut @ drop ?off lut" by simp
  moreover have "length (take ?off lut) = ?off" using big by simp
  moreover have "length (drop ?off lut) = 786432" using big by simp
  moreover have "fst (size_normalizer lut p) = Inr (drop ?off lut)"
    using big by (simp add: size_normalizer_def expectedSize_def Let_def)
  ultimately show "\<exists>header kept. lut = header @ kept \<and> length header = ?off \<and>
         length kept = 786432 \<and> fst (size_normalizer lut p) = Inr kept"
    by blast
next
  assume "length lut < 786432"
  then show "fst (size_normalizer lut p) = Inl 1"
    by (simp add: size_normalizer_def expectedSize_def)
next
  assume short: "length lut < 786432" and d: "decompressed e w = Some lut"
  from d obtain p3 where d3: "decompress_lut e w = Inr (lut, p3)"
    by (auto simp add: decompressed_Some)
  have e3: "js_stderr p3 = []" using d3 by (rule decompress_stderr)
  have x: "extract_lut_js e w =
      js_exit 1 (console_error [''Decompressed data smaller than expected!''] p3)
        (note_read (resolve (cwd w) mixbox_rel) w)"
    using short d3 by (simp add: extract_lut_js_def size_normalizer_def expectedSize_def Let_def)
  show "returncode (fst (extract_lut_js e w)) = 1" by (simp add: x js_exit_def)
  show "stderr (fst (extract_lut_js e w)) = ''Decompressed data smaller than expected!\<newline>''"
    by (simp add: x js_exit_def console_error_def e3)
  show "fs (snd (extract_lut_js e w)) = fs w" by (simp add: x js_exit_def)
next
  assume short: "length lut < 786432"
    and d: "decompressed e (w0\<lparr>cwd := script_dir e\<rparr>) = Some lut"
  have ne: "fst (main e w0) \<noteq> 0"
    using d short by (intro main_short[where lut=lut]) (simp_all add: expectedSize_def)
  show "fst (main e w0) = 1" using ne by (rule main_failure(1))
  show "fs (snd (main e w0)) (out_path e) = fs w0 (out_path e)" using ne by (rule main_failure(2))
next
  assume a: "length lut \<ge> 786432 \<and> decompressed e w = Some lut \<and>
    returncode (fst (extract_lut_js e w)) = 0"
  obtain r w' where x: "extract_lut_js e w = (r, w')" by (cases "extract_lut_js e w")
  from js_success[OF x] a obtain lut' p' where
    s: "decompress_lut e w = Inr (lut', p')"
       "fs w' = (fs w)(cwd w @ [''mixbox_lut_raw.bin''] \<mapsto> File (drop (length lut' - expectedSize) lut'))"
    by (auto simp add: x)
  have "lut' = lut" using a s(1) by (simp add: decompressed_def)
  then show "fs (snd (extract_lut_js e w)) (resolve (cwd w) [''mixbox_lut_raw.bin'']) =
        Some (File (drop (length lut - 786432) lut))"
    by (simp add: x s(2) resolve_raw expectedSize_def)
qed

theorem size_normalizer_policy_witness:
  "fst (size_normalizer (replicate 786432 (CHR ''a'')) \<lparr>js_stdout = [], js_stderr = []\<rparr>)
     = Inr (replicate 786432 (CHR ''a'')) \<and>
   (\<exists>header kept. replicate 13568 (CHR ''h'') @ replicate 786432 (CHR ''d'') = header @ kept \<and>
      length header = 13568 \<and> length kept = 786432 \<and>
      fst (size_normalizer (replicate 13568 (CHR ''h'') @ replicate 786432 (CHR ''d''))
             \<lparr>js_stdout = [], js_stderr = []\<rparr>) = Inr kept) \<and>
   fst (size_normalizer (replicate 100 (CHR ''a'')) \<lparr>js_stdout = [], js_stderr = []\<rparr>) = Inl 1 \<and>
   decompressed (sample_env (replicate 100 (CHR ''a'')))
     (sample_world\<lparr>cwd := script_dir (sample_env (replicate 100 (CHR ''a'')))\<rparr>)
     = Some (replicate 100 (CHR ''a'')) \<and>
   returncode (fst (extract_lut_js (sample_env (replicate 100 (CHR ''a'')))
     (sample_world\<lparr>cwd := script_dir (sample_env (replicate 100 (CHR ''a'')))\<rparr>))) = 1 \<and>
   fst (main (sample_env (replicate 100 (CHR ''a''))) sample_world) = 1 \<and>
   returncode (fst (extract_lut_js
     (sample_env (replicate 13568 (CHR ''h'') @ replicate 786432 (CHR ''d'')))
     (sample_world\<lparr>cwd := script_dir
        (sample_env (replicate 13568 (CHR ''h'') @ replicate 786432 (CHR ''d'')))\<rparr>))) = 0 \<and>
   fs (snd (extract_lut_js
     (sample_env (replicate 13568 (CHR ''h'') @ replicate 786432 (CHR ''d'')))
     (sample_world\<lparr>cwd := script_dir
        (sample_env (replicate 13568 (CHR ''h'') @ replicate 786432 (CHR ''d'')))\<rparr>)))
     [''repo'', ''scripts'', ''mixbox_lut_raw.bin''] = Some (File (replicate 786432 (CHR ''d'')))"
  using size_normalizer_policy [where lut="replicate 786432 (CHR ''a'')"
      and p="\<lparr>js_stdout = [], js_stderr = []\<rparr>"]
    size_normalizer_policy [where lut="replicate 13568 (CHR ''h'') @ replicate 786432 (CHR ''d'')"
      and p="\<lparr>js_stdout = [], js_stderr = []\<rparr>"
      and e="sample_env (replicate 13568 (CHR ''h'') @ replicate 786432 (CHR ''d''))"
      and w="sample_world\<lparr>cwd := script_dir
        (sample_env (replicate 13568 (CHR ''h'') @ replicate 786432 (CHR ''d'')))\<rparr>"]
    size_normalizer_policy [where lut="replicate 100 (CHR ''a'')"
      and p="\<lparr>js_stdout = [], js_stderr = []\<rparr>"
      and e="sample_env (replicate 100 (CHR ''a''))"
      and w="sample_world\<lparr>cwd := script_dir (sample_env (replicate 100 (CHR ''a'')))\<rparr>"
      and ?w0.0=sample_world]
    sample_decompressed [of "replicate 100 (CHR ''a'')"]
    sample_decompressed [of "replicate 13568 (CHR ''h'') @ replicate 786432 (CHR ''d'')"]
    sample_status_ok [of "replicate 13568 (CHR ''h'') @ replicate 786432 (CHR ''d'')"]
  by (simp add: expectedSize_def sample_paths resolve_raw)

section \<open>Short buffers\<close>

text \<open>
  Claim C5. When what the input decompresses to is shorter than 786,432 bytes (100 bytes,
  say), the script ends with status 1 and the output file is never written: no write to its
  path is among the events of the run, and what is at that path is what was there before.
\<close>

theorem short_buffer_exit:
  assumes "decompressed e (w\<lparr>cwd := script_dir e\<rparr>) = Some lut" "length lut < 786432"
  shows "fst (main e w) = 1 \<and> Write (out_path e) \<notin> set (run_events e w) \<and>
         fs (snd (main e w)) (out_path e) = fs w (out_path e)"
proof -
  have ne: "fst (main e w) \<noteq> 0"
    using assms by (intro main_short[where lut=lut]) (simp_all add: expectedSize_def)
  show ?thesis using main_failure(1-3)[OF ne] by simp
qed

theorem short_buffer_exit_witness:
  "decompressed (sample_env (replicate 100 (CHR ''a'')))
     (sample_world\<lparr>cwd := script_dir (sample_env (replicate 100 (CHR ''a'')))\<rparr>)
     = Some (replicate 100 (CHR ''a'')) \<and>
   length (replicate 100 (CHR ''a'')) < 786432 \<and>
   fst (main (sample_env (replicate 100 (CHR ''a''))) sample_world) = 1 \<and>
   Write [''repo'', ''lib'', ''utils'', ''mixbox_lut_data.dart'']
     \<notin> set (run_events (sample_env (replicate 100 (CHR ''a''))) sample_world) \<and>
   fs (snd (main (sample_env (replicate 100 (CHR ''a''))) sample_world))
     [''repo'', ''lib'', ''utils'', ''mixbox_lut_data.dart''] = None"
  using short_buffer_exit [of "sample_env (replicate 100 (CHR ''a''))" sample_world
      "replicate 100 (CHR ''a'')"]
    sample_decompressed [of "replicate 100 (CHR ''a'')"]
  by (simp add: sample_paths sample_world_def sample_fs_simps)

section \<open>Temporary files\<close>



section \<open>The entries of the generated literal\<close>

text \<open>
  Claim C2. After a run that ends with status 0, the output file holds a list literal with
  exactly 786,432 comma-separated entries; each is a decimal numeral for a number between
  0 and 255, and together they are the bytes of the 786,432-byte window of the decompressed
  buffer, in order.
\<close>

theorem output_entries:
  assumes "fst (main e w) = 0"
  shows "\<exists>content lut. fs (snd (main e w)) (out_path e) = Some (File content) \<and>
           length (literal_entries content) = 786432 \<and>
           (\<forall>x \<in> set (literal_entries content). \<exists>n. x = Some n \<and> n \<le> 255) \<and>
           decompressed e (w\<lparr>cwd := script_dir e\<rparr>) = Some lut \<and>
           literal_entries content = map (\<lambda>b. Some (of_char b)) (drop (length lut - 786432) lut)"
proof -
  from assms obtain lut where
    d: "decompressed e (w\<lparr>cwd := script_dir e\<rparr>) = Some lut" and len: "expectedSize \<le> length lut"
    and out: "fs (snd (main e w)) (out_path e) =
         Some (File (utf8_encode (dart_code_of (drop (length lut - expectedSize) lut))))"
    by (rule main_success)
  define buf where "buf = drop (length lut - expectedSize) lut"
  define content where "content = utf8_encode (dart_code_of buf)"
  have l: "length buf = 786432" using len by (simp add: buf_def expectedSize_def)
  then have "buf \<noteq> []" by auto
  then have en: "literal_entries content = map (\<lambda>b. Some (of_char b)) buf"
    unfolding content_def by (rule literal_entries_dart)
  have 1: "fs (snd (main e w)) (out_path e) = Some (File content)"
    using out by (simp add: content_def buf_def)
  have 2: "length (literal_entries content) = 786432" by (simp add: en l)
  have 3: "\<forall>x \<in> set (literal_entries content). \<exists>n. x = Some n \<and> n \<le> 255"
    using of_char_le_255 by (auto simp add: en)
  have 4: "literal_entries content = map (\<lambda>b. Some (of_char b)) (drop (length lut - 786432) lut)"
    using en by (simp add: buf_def expectedSize_def)
  from 1 2 3 d 4 show ?thesis by blast
qed

theorem output_entries_witness:
  "fst (main (sample_env (replicate 786432 (CHR ''a''))) sample_world) = 0 \<and>
   (\<exists>content. fs (snd (main (sample_env (replicate 786432 (CHR ''a''))) sample_world))
        [''repo'', ''lib'', ''utils'', ''mixbox_lut_data.dart''] = Some (File content) \<and>
      length (literal_entries content) = 786432 \<and>
      (\<forall>x \<in> set (literal_entries content). \<exists>n. x = Some n \<and> n \<le> 255) \<and>
      literal_entries content = replicate 786432 (Some 97))"
proof -
  let ?E = "sample_env (replicate 786432 (CHR ''a''))"
  have ok: "fst (main ?E sample_world) = 0"
    by (rule sample_main_ok) (simp add: expectedSize_def)
  from output_entries [OF ok] obtain content lut where
    t: "fs (snd (main ?E sample_world)) (out_path ?E) = Some (File content)"
       "length (literal_entries content) = 786432"
       "\<forall>x \<in> set (literal_entries content). \<exists>n. x = Some n \<and> n \<le> 255"
       "decompressed ?E (sample_world\<lparr>cwd := script_dir ?E\<rparr>) = Some lut"
       "literal_entries content = map (\<lambda>b. Some (of_char b)) (drop (length lut - 786432) lut)"
    by blast
  have "lut = replicate 786432 (CHR ''a'')" using t(4) by (simp add: sample_decompressed)
  then have "literal_entries content = replicate 786432 (Some 97)"
    using t(5) by (simp add: map_replicate)
  then show ?thesis using ok t(1-3) by (auto simp add: sample_paths)
qed

section \<open>Round trip\<close>

text \<open>
  Claim C3. When the decompressed buffer has exactly 786,432 bytes nothing is trimmed: the
  buffer handed on is the decompressed one, and after a run that ends with status 0 the
  entries of the literal in the output file are the values of the decompressed bytes, all
  of them and in the same order.
\<close>

theorem round_trip:
  assumes "decompressed e (w\<lparr>cwd := script_dir e\<rparr>) = Some lut" "length lut = 786432"
    and "fst (main e w) = 0"
  shows "fst (size_normalizer lut p) = Inr lut \<and>
         fs (snd (main e w)) (out_path e) = Some (File (utf8_encode (dart_code_of lut))) \<and>
         literal_entries (utf8_encode (dart_code_of lut)) = map (\<lambda>b. Some (of_char b)) lut"
proof -
  from assms(3) obtain lut' where
    d: "decompressed e (w\<lparr>cwd := script_dir e\<rparr>) = Some lut'"
    and out: "fs (snd (main e w)) (out_path e) =
         Some (File (utf8_encode (dart_code_of (drop (length lut' - expectedSize) lut'))))"
    by (rule main_success)
  have "lut' = lut" using d assms(1) by simp
  then have 2: "fs (snd (main e w)) (out_path e) = Some (File (utf8_encode (dart_code_of lut)))"
    using out assms(2) by (simp add: expectedSize_def)
  have 1: "fst (size_normalizer lut p) = Inr lut"
    using assms(2) by (simp add: size_normalizer_def expectedSize_def)
  have "lut \<noteq> []" using assms(2) by auto
  then have 3: "literal_entries (utf8_encode (dart_code_of lut)) = map (\<lambda>b. Some (of_char b)) lut"
    by (rule literal_entries_dart)
  from 1 2 3 show ?thesis by simp
qed

theorem round_trip_witness:
  "decompressed (sample_env (replicate 786432 (CHR ''a'')))
     (sample_world\<lparr>cwd := script_dir (sample_env (replicate 786432 (CHR ''a'')))\<rparr>)
     = Some (replicate 786432 (CHR ''a'')) \<and>
   length (replicate 786432 (CHR ''a'')) = 786432 \<and>
   fst (main (sample_env (replicate 786432 (CHR ''a''))) sample_world) = 0 \<and>
   fst (size_normalizer (replicate 786432 (CHR ''a'')) \<lparr>js_stdout = [], js_stderr = []\<rparr>)
     = Inr (replicate 786432 (CHR ''a'')) \<and>
   fs (snd (main (sample_env (replicate 786432 (CHR ''a''))) sample_world))
     [''repo'', ''lib'', ''utils'', ''mixbox_lut_data.dart'']
     = Some (File (utf8_encode (dart_code_of (replicate 786432 (CHR ''a''))))) \<and>
   literal_entries (utf8_encode (dart_code_of (replicate 786432 (CHR ''a''))))
     = replicate 786432 (Some 97)"
  using round_trip [of "sample_env (replicate 786432 (CHR ''a''))" sample_world
      "replicate 786432 (CHR ''a'')" "\<lparr>js_stdout = [], js_stderr = []\<rparr>"]
    sample_decompressed [of "replicate 786432 (CHR ''a'')"]
    sample_main_ok [of "replicate 786432 (CHR ''a'')"]
  by (simp add: expectedSize_def sample_paths map_replicate)

section \<open>The working directory\<close>

lemma run_events_start:
  "\<exists>evs. run_events e w =
     [Print Stdout (replicate 60 (CHR ''='')), Print Stdout ''Mixbox LUT Extraction Script'',
      Print Stdout (replicate 60 (CHR ''='')), Print Stdout [], Chdir (script_dir e)] @ evs"
proof (cases rule: main_try_outcome[where e=e and w="at_start e w"])
  case (create_failed x)
  have m: "main e w = (1, traceback_print_exc x (eprint (''\<newline>[ERROR] '' @ str_exn x)
             (print ''Step 1: Creating Node.js extraction script...'' (at_start e w))))"
    by (simp add: main_at_start create_failed)
  have "run_events e w =
         [Print Stdout (replicate 60 (CHR ''='')), Print Stdout ''Mixbox LUT Extraction Script'',
          Print Stdout (replicate 60 (CHR ''='')), Print Stdout [], Chdir (script_dir e)] @
         [Print Stdout ''Step 1: Creating Node.js extraction script...'',
          Print Stderr (''\<newline>[ERROR] '' @ str_exn x), Traceback x]"
    by (rule run_events_eq) (simp add: m)
  then show ?thesis by (rule exI)
next
  case (extract_failed W evs)
  have m: "main e w = (1, W)" by (simp add: main_at_start extract_failed(1))
  have "run_events e w =
         [Print Stdout (replicate 60 (CHR ''='')), Print Stdout ''Mixbox LUT Extraction Script'',
          Print Stdout (replicate 60 (CHR ''='')), Print Stdout [], Chdir (script_dir e)] @ evs"
    by (rule run_events_eq) (simp add: m extract_failed(4))
  then show ?thesis by (rule exI)
next
  case (convert_failed x W evs rest)
  have m: "main e w = (1, traceback_print_exc x (eprint (''\<newline>[ERROR] '' @ str_exn x) W))"
    by (simp add: main_at_start convert_failed(1))
  have "run_events e w =
         [Print Stdout (replicate 60 (CHR ''='')), Print Stdout ''Mixbox LUT Extraction Script'',
          Print Stdout (replicate 60 (CHR ''='')), Print Stdout [], Chdir (script_dir e)] @
         (evs @ [Print Stderr (''\<newline>[ERROR] '' @ str_exn x), Traceback x])"
    by (rule run_events_eq) (simp add: m convert_failed(5))
  then show ?thesis by (rule exI)
next
  case (success W evs lut p)
  have m: "main e w = (0, W)" by (simp add: main_at_start success(1))
  have "run_events e w =
         [Print Stdout (replicate 60 (CHR ''='')), Print Stdout ''Mixbox LUT Extraction Script'',
          Print Stdout (replicate 60 (CHR ''='')), Print Stdout [], Chdir (script_dir e)] @ evs"
    by (rule run_events_eq) (simp add: m success(12))
  then show ?thesis by (rule exI)
qed

lemma resolve_lib:
  "resolve d [''..'', ''lib''] = butlast d @ [''lib'']"
  "resolve d [''..'', ''lib'', ''utils''] = butlast d @ [''lib'', ''utils'']"
  by (simp_all add: resolve_def walk_def)

lemma main_file_events:
  fixes e :: env and w :: world
  defines "d \<equiv> script_dir e"
  shows "\<exists>rest. file_events (run_events e w) = Chdir d # rest \<and>
     set rest \<subseteq> {Write (snippet_path e), Remove (snippet_path e), Read (input_path e),
                   Write (raw_path e), Read (raw_path e), Remove (raw_path e),
                   Mkdir (butlast d @ [''lib'']), Mkdir (butlast d @ [''lib'', ''utils'']),
                   Write (out_path e)}"
proof (cases rule: main_outcome[of e w])
  case (create_failed x)
  have "file_events (run_events e w) = Chdir d # []" by (simp add: create_failed(5) d_def)
  then show ?thesis by (intro exI[of _ "[]"]) simp
next
  case extract_failed
  from extract_failed(4) show ?thesis
  proof
    assume a: "file_events (run_events e w) = [Chdir (script_dir e), Write (snippet_path e)]"
    show ?thesis by (intro exI[of _ "[Write (snippet_path e)]"]) (simp add: a d_def)
  next
    assume a: "file_events (run_events e w) =
        [Chdir (script_dir e), Write (snippet_path e), Read (input_path e)]"
    show ?thesis
      by (intro exI[of _ "[Write (snippet_path e), Read (input_path e)]"]) (simp add: a d_def)
  qed
next
  case (convert_failed x evs rest)
  have "set rest \<subseteq> {Write (snippet_path e), Remove (snippet_path e), Read (input_path e),
                   Write (raw_path e), Read (raw_path e), Remove (raw_path e),
                   Mkdir (butlast d @ [''lib'']), Mkdir (butlast d @ [''lib'', ''utils'']),
                   Write (out_path e)}"
    using convert_failed(8) unfolding d_def by blast
  then show ?thesis
    by (intro exI[of _ "[Write (snippet_path e), Read (input_path e), Write (raw_path e)] @ rest"])
       (simp add: convert_failed(7) d_def)
next
  case (success lut p)
  show ?thesis
    by (intro exI[of _ "[Write (snippet_path e), Read (input_path e), Write (raw_path e),
          Read (raw_path e)] @
         (if fs w (butlast (script_dir e) @ [''lib'']) = None
          then [Mkdir (butlast (script_dir e) @ [''lib''])] else []) @
         (if fs w (butlast (script_dir e) @ [''lib'', ''utils'']) = None
          then [Mkdir (butlast (script_dir e) @ [''lib'', ''utils''])] else []) @
         [Write (out_path e), Remove (snippet_path e), Remove (raw_path e)]"])
       (auto simp add: success(11) d_def)
qed

lemma main_cwd_irrelevant: "main e (w\<lparr>cwd := c\<rparr>) = main e w"
  by (simp add: main_def os_chdir_def print_def Let_def)

text \<open>
  Claim C9. The first thing a run does after printing its banner is to change the working
  directory to the directory of the script; no file is touched before. Every file or
  directory the run then reads, writes, creates or removes is one of the relative paths of
  the program resolved against the directory of the script, the run ends in that directory,
  and the directory the script was started from has no influence on the run at all.
\<close>

theorem working_directory:
  "main e (w\<lparr>cwd := c\<rparr>) = main e w \<and>
   cwd (snd (main e w)) = script_dir e \<and>
   (\<exists>evs. run_events e w =
      [Print Stdout (replicate 60 (CHR ''='')), Print Stdout ''Mixbox LUT Extraction Script'',
       Print Stdout (replicate 60 (CHR ''='')), Print Stdout [], Chdir (script_dir e)] @ evs) \<and>
   (\<exists>rest. file_events (run_events e w) = Chdir (script_dir e) # rest \<and>
      set rest \<subseteq>
        {Write (resolve (script_dir e) [''extract_lut.js'']),
         Remove (resolve (script_dir e) [''extract_lut.js'']),
         Read (resolve (script_dir e) mixbox_rel),
         Write (resolve (script_dir e) [''mixbox_lut_raw.bin'']),
         Read (resolve (script_dir e) [''mixbox_lut_raw.bin'']),
         Remove (resolve (script_dir e) [''mixbox_lut_raw.bin'']),
         Mkdir (resolve (script_dir e) [''..'', ''lib'']),
         Mkdir (resolve (script_dir e) [''..'', ''lib'', ''utils'']),
         Write (resolve (script_dir e) output_path)})"
  using main_cwd_irrelevant[where e=e and w=w and c=c] main_cwd[of e w] run_events_start[of e w]
    main_file_events[of e w]
  unfolding snippet_path_def raw_path_def input_path_def out_path_def resolve_lib
  by (intro conjI)

theorem working_directory_witness:
  "main (sample_env []\<lparr>node_installed := False\<rparr>) (sample_world\<lparr>cwd := [''repo'']\<rparr>) =
     main (sample_env []\<lparr>node_installed := False\<rparr>) sample_world \<and>
   cwd (snd (main (sample_env []\<lparr>node_installed := False\<rparr>) sample_world)) = [''repo'', ''scripts''] \<and>
   file_events (run_events (sample_env []\<lparr>node_installed := False\<rparr>) sample_world) =
     [Chdir [''repo'', ''scripts''], Write [''repo'', ''scripts'', ''extract_lut.js'']]"
  using working_directory [where e="sample_env []\<lparr>node_installed := False\<rparr>"
      and w=sample_world and c="[''repo'']"]
  by (simp add: sample_no_node_events sample_paths)

section \<open>The layout of the lines\<close>














end
